theory Spec2Isabelle
  imports Main
begin

section \<open>Python values and exceptions\<close>

text \<open>
  The services exchange dynamically typed Python values: cached payloads, rows of a
  result list, parsed JSON. \<open>PyNaN\<close> stands for the float \<open>nan\<close> that pandas puts in
  an empty CSV cell; other floats do not occur in the modelled paths.
\<close>

datatype pyval =
    PyNone
  | PyBool bool
  | PyInt int
  | PyNaN
  | PyStr string
  | PyList "pyval list"
  | PyDict "(string \<times> pyval) list"

text \<open>A raised exception: its class name and its message (\<open>str(e)\<close>).\<close>

datatype exn = Exn (cls: string) (msg: string)

text \<open>Python truthiness (\<open>if v:\<close>).\<close>

fun truthy :: "pyval \<Rightarrow> bool" where
  "truthy PyNone = False"
| "truthy (PyBool b) = b"
| "truthy (PyInt n) = (n \<noteq> 0)"
| "truthy PyNaN = True"
| "truthy (PyStr s) = (s \<noteq> [])"
| "truthy (PyList xs) = (xs \<noteq> [])"
| "truthy (PyDict d) = (d \<noteq> [])"

section \<open>Cache layer (services/cache\_service.py)\<close>

subsection \<open>The in-process store: cachetools.TTLCache\<close>

text \<open>
  \<open>TTLCache(maxsize, ttl)\<close> of the cachetools library, as an association list in
  least-recently-used order (head: next to be evicted). Every entry carries the time at
  which it expires, \<open>ttl\<close> after it was stored; an entry is live while the clock is
  before that time. Time is a simulated clock in whole seconds.
\<close>

type_synonym ttlcache = "(string \<times> pyval \<times> int) list"

definition ttl_contains :: "int \<Rightarrow> ttlcache \<Rightarrow> string \<Rightarrow> bool" where
  "ttl_contains now c k =
     (case map_of c k of None \<Rightarrow> False | Some (v, e) \<Rightarrow> now < e)"

definition ttl_getitem :: "int \<Rightarrow> ttlcache \<Rightarrow> string \<Rightarrow> exn + (pyval \<times> ttlcache)" where
  "ttl_getitem now c k =
     (case map_of c k of
        None \<Rightarrow> Inl (Exn ''KeyError'' k)
      | Some (v, e) \<Rightarrow>
          if now < e then Inr (v, filter (\<lambda>x. fst x \<noteq> k) c @ [(k, v, e)])
          else Inl (Exn ''KeyError'' k))"

definition ttl_expire :: "int \<Rightarrow> ttlcache \<Rightarrow> ttlcache" where
  "ttl_expire now c = filter (\<lambda>x. now < snd (snd x)) c"

definition ttl_setitem :: "nat \<Rightarrow> int \<Rightarrow> int \<Rightarrow> ttlcache \<Rightarrow> string \<Rightarrow> pyval \<Rightarrow> ttlcache" where
  "ttl_setitem maxsize ttl now c k v =
     (let c1 = ttl_expire now c;
          c2 = (if k \<in> set (map fst c1) then c1
                else drop (Suc (length c1) - maxsize) c1)
      in filter (\<lambda>x. fst x \<noteq> k) c2 @ [(k, v, now + ttl)])"

definition ttl_delitem :: "ttlcache \<Rightarrow> string \<Rightarrow> ttlcache" where
  "ttl_delitem c k = filter (\<lambda>x. fst x \<noteq> k) c"

subsection \<open>The external store: a Redis database\<close>

text \<open>
  The Redis database the client is connected to. It is shared with every other client
  of that database, so it may hold keys this cache never wrote. An entry is a string
  with an optional expiry time. Every command fails with a connection error while the
  server is unreachable.
\<close>

record redis_server =
  reachable :: bool
  store :: "(string \<times> string \<times> int option) list"

definition connection_error :: exn where
  "connection_error = Exn ''ConnectionError'' ''Connection refused''"

definition redis_ping :: "redis_server \<Rightarrow> exn + bool" where
  "redis_ping srv = (if reachable srv then Inr True else Inl connection_error)"

definition redis_get :: "int \<Rightarrow> redis_server \<Rightarrow> string \<Rightarrow> exn + string option" where
  "redis_get now srv k =
     (if \<not> reachable srv then Inl connection_error
      else Inr (case map_of (store srv) k of
                  None \<Rightarrow> None
                | Some (s, None) \<Rightarrow> Some s
                | Some (s, Some e) \<Rightarrow> if now < e then Some s else None))"

definition redis_setex :: "int \<Rightarrow> redis_server \<Rightarrow> string \<Rightarrow> int \<Rightarrow> string \<Rightarrow> exn + redis_server" where
  "redis_setex now srv k ttl s =
     (if \<not> reachable srv then Inl connection_error
      else if ttl \<le> 0 then Inl (Exn ''ResponseError'' ''invalid expire time in setex'')
      else Inr (srv\<lparr>store := (k, s, Some (now + ttl)) # filter (\<lambda>x. fst x \<noteq> k) (store srv)\<rparr>))"

definition redis_delete :: "redis_server \<Rightarrow> string \<Rightarrow> exn + redis_server" where
  "redis_delete srv k =
     (if \<not> reachable srv then Inl connection_error
      else Inr (srv\<lparr>store := filter (\<lambda>x. fst x \<noteq> k) (store srv)\<rparr>))"

definition redis_flushdb :: "redis_server \<Rightarrow> exn + redis_server" where
  "redis_flushdb srv =
     (if \<not> reachable srv then Inl connection_error
      else Inr (srv\<lparr>store := []\<rparr>))"

subsection \<open>The JSON codec\<close>

text \<open>
  \<open>json.dumps\<close> and \<open>json.loads\<close> of the Python standard library are parameters of the
  model: each either returns or raises.
\<close>

record json =
  dumps :: "pyval \<Rightarrow> exn + string"
  loads :: "string \<Rightarrow> exn + pyval"

subsection \<open>CacheService\<close>

text \<open>
  \<open>redis_client\<close> is \<open>True\<close> when the attribute holds a client object and \<open>False\<close>
  when it is \<open>None\<close>. \<open>lru_cache\<close> is the \<open>LRUCache(maxsize=500)\<close>, which the service
  only ever clears.
\<close>

record cache_service =
  redis_client :: bool
  memory_cache :: ttlcache
  lru_cache :: "(string \<times> pyval) list"

definition init :: "redis_server \<Rightarrow> cache_service" where
  "init srv =
     \<lparr>redis_client = (case redis_ping srv of Inl e \<Rightarrow> False | Inr ok \<Rightarrow> True),
      memory_cache = [],
      lru_cache = []\<rparr>"

text \<open>The \<open>try\<close> block of \<open>get\<close>, and \<open>get\<close> with its handler.\<close>

definition memory_get :: "int \<Rightarrow> cache_service \<Rightarrow> string \<Rightarrow> pyval \<Rightarrow> exn + (pyval \<times> cache_service)" where
  "memory_get now cs key dflt =
     (if ttl_contains now (memory_cache cs) key then
        (case ttl_getitem now (memory_cache cs) key of
           Inl e \<Rightarrow> Inl e
         | Inr (v, m) \<Rightarrow> Inr (v, cs\<lparr>memory_cache := m\<rparr>))
      else Inr (dflt, cs))"

definition get_body :: "json \<Rightarrow> int \<Rightarrow> redis_server \<Rightarrow> cache_service \<Rightarrow> string \<Rightarrow> pyval
    \<Rightarrow> exn + (pyval \<times> cache_service)" where
  "get_body J now srv cs key dflt =
     (if redis_client cs then
        (case redis_get now srv key of
           Inl e \<Rightarrow> Inl e
         | Inr None \<Rightarrow> memory_get now cs key dflt
         | Inr (Some s) \<Rightarrow>
             if s \<noteq> [] then
               (case loads J s of Inl e \<Rightarrow> Inl e | Inr v \<Rightarrow> Inr (v, cs))
             else memory_get now cs key dflt)
      else memory_get now cs key dflt)"

definition get :: "json \<Rightarrow> int \<Rightarrow> redis_server \<Rightarrow> cache_service \<Rightarrow> string \<Rightarrow> pyval
    \<Rightarrow> exn + (pyval \<times> cache_service)" where
  "get J now srv cs key dflt =
     (case get_body J now srv cs key dflt of
        Inl e \<Rightarrow> Inr (dflt, cs)
      | Inr r \<Rightarrow> Inr r)"

text \<open>
  The \<open>try\<close> block of \<open>set\<close>, and \<open>set\<close> with its handler. \<open>delete\<close> and \<open>clear\<close>
  below are written with their handlers folded in: the only step of theirs that can raise
  is the Redis command, which comes first.
\<close>

definition set_body :: "json \<Rightarrow> int \<Rightarrow> redis_server \<Rightarrow> cache_service \<Rightarrow> string \<Rightarrow> pyval \<Rightarrow> int
    \<Rightarrow> exn + (bool \<times> redis_server \<times> cache_service)" where
  "set_body J now srv cs key val ttl =
     (if redis_client cs then
        (case dumps J val of
           Inl e \<Rightarrow> Inl e
         | Inr serialized_value \<Rightarrow>
             (case redis_setex now srv key ttl serialized_value of
                Inl e \<Rightarrow> Inl e
              | Inr srv' \<Rightarrow> Inr (True, srv', cs)))
      else Inr (True, srv, cs\<lparr>memory_cache := ttl_setitem 1000 3600 now (memory_cache cs) key val\<rparr>))"

definition set' :: "json \<Rightarrow> int \<Rightarrow> redis_server \<Rightarrow> cache_service \<Rightarrow> string \<Rightarrow> pyval \<Rightarrow> int
    \<Rightarrow> exn + (bool \<times> redis_server \<times> cache_service)" where
  "set' J now srv cs key val ttl =
     (case set_body J now srv cs key val ttl of
        Inl e \<Rightarrow> Inr (False, srv, cs)
      | Inr r \<Rightarrow> Inr r)"

definition delete :: "int \<Rightarrow> redis_server \<Rightarrow> cache_service \<Rightarrow> string \<Rightarrow> exn + (bool \<times> redis_server \<times> cache_service)" where
  "delete now srv cs key =
     (let mem = (if ttl_contains now (memory_cache cs) key
                 then cs\<lparr>memory_cache := ttl_delitem (memory_cache cs) key\<rparr> else cs) in
      if redis_client cs then
        (case redis_delete srv key of
           Inl e \<Rightarrow> Inr (False, srv, cs)
         | Inr srv' \<Rightarrow> Inr (True, srv', mem))
      else Inr (True, srv, mem))"

definition clear :: "redis_server \<Rightarrow> cache_service \<Rightarrow> exn + (bool \<times> redis_server \<times> cache_service)" where
  "clear srv cs =
     (let mem = cs\<lparr>memory_cache := [], lru_cache := []\<rparr> in
      if redis_client cs then
        (case redis_flushdb srv of
           Inl e \<Rightarrow> Inr (False, srv, cs)
         | Inr srv' \<Rightarrow> Inr (True, srv', mem))
      else Inr (True, srv, mem))"

text \<open>
  \<open>_generate_key\<close>: the digest of \<open>prefix:str(args):str(sorted(kwargs.items()))\<close>. The
  MD5 digest and the two printed forms are parameters.
\<close>

definition generate_key :: "(string \<Rightarrow> string) \<Rightarrow> string \<Rightarrow> string \<Rightarrow> string \<Rightarrow> string" where
  "generate_key md5 prefix args kwargs = md5 (prefix @ '':'' @ args @ '':'' @ kwargs)"

text \<open>
  A function handed to the cache is run for its effect and its result. The model counts
  its invocations: \<open>func n\<close> is the outcome of invocation number \<open>n\<close> (at the arguments
  of the call at hand), and the state carries the number of invocations made so far.
  \<open>now\<close> is the clock at the lookup, \<open>now'\<close> the clock at the store after the function
  has run.
\<close>

type_synonym cache_state = "redis_server \<times> cache_service \<times> nat"

definition get_or_set :: "json \<Rightarrow> string \<Rightarrow> (nat \<Rightarrow> exn + pyval) \<Rightarrow> int \<Rightarrow> int \<Rightarrow> int
    \<Rightarrow> cache_state \<Rightarrow> (exn + pyval) \<times> cache_state" where
  "get_or_set J key default_func ttl now now' st =
     (case st of (srv, cs, calls) \<Rightarrow>
      (case get J now srv cs key PyNone of
         Inl e \<Rightarrow> (Inl e, srv, cs, calls)
       | Inr (val, cs1) \<Rightarrow>
           if val = PyNone then
             (case default_func calls of
                Inl e \<Rightarrow> (Inl e, srv, cs1, Suc calls)
              | Inr v \<Rightarrow>
                  (case set' J now' srv cs1 key v ttl of
                     Inl e \<Rightarrow> (Inl e, srv, cs1, Suc calls)
                   | Inr (ok, srv2, cs2) \<Rightarrow> (Inr v, srv2, cs2, Suc calls)))
           else (Inr val, srv, cs1, calls)))"

text \<open>
  The wrapper that \<open>cache_result(prefix, ttl)\<close> puts around \<open>func\<close>; \<open>args\<close> is the
  printed form of \<open>(func.__name__, *args)\<close>.
\<close>

definition cache_result :: "json \<Rightarrow> (string \<Rightarrow> string) \<Rightarrow> string \<Rightarrow> int \<Rightarrow> (nat \<Rightarrow> exn + pyval)
    \<Rightarrow> string \<Rightarrow> string \<Rightarrow> int \<Rightarrow> int \<Rightarrow> cache_state \<Rightarrow> (exn + pyval) \<times> cache_state" where
  "cache_result J md5 prefix ttl func args kwargs now now' st =
     (case st of (srv, cs, calls) \<Rightarrow>
      (let cache_key = generate_key md5 prefix args kwargs in
       case get J now srv cs cache_key PyNone of
         Inl e \<Rightarrow> (Inl e, srv, cs, calls)
       | Inr (cached_result, cs1) \<Rightarrow>
           if cached_result \<noteq> PyNone then (Inr cached_result, srv, cs1, calls)
           else
             (case func calls of
                Inl e \<Rightarrow> (Inl e, srv, cs1, Suc calls)
              | Inr result \<Rightarrow>
                  (case set' J now' srv cs1 cache_key result ttl of
                     Inl e \<Rightarrow> (Inl e, srv, cs1, Suc calls)
                   | Inr (ok, srv2, cs2) \<Rightarrow> (Inr result, srv2, cs2, Suc calls)))))"

text \<open>A sequence of calls of the same cached operation, one per pair of clock readings.\<close>

fun call_repeatedly :: "(int \<Rightarrow> int \<Rightarrow> cache_state \<Rightarrow> (exn + pyval) \<times> cache_state)
    \<Rightarrow> (int \<times> int) list \<Rightarrow> cache_state \<Rightarrow> (exn + pyval) list \<times> cache_state" where
  "call_repeatedly f [] st = ([], st)"
| "call_repeatedly f (t # ts) st =
     (case f (fst t) (snd t) st of
        (r, st1) \<Rightarrow> (case call_repeatedly f ts st1 of (rs, st2) \<Rightarrow> (r # rs, st2)))"

text \<open>Reading the components of the result of a cached call.\<close>

definition invocations :: "'a \<times> cache_state \<Rightarrow> nat" where
  "invocations r = snd (snd (snd r))"

definition server_of :: "'a \<times> cache_state \<Rightarrow> redis_server" where
  "server_of r = fst (snd r)"

definition service_of :: "'a \<times> cache_state \<Rightarrow> cache_service" where
  "service_of r = fst (snd (snd r))"

text \<open>
  Every entry that either store holds under \<open>key\<close> is a stored \<open>None\<close> (\<open>null\<close> in
  its serialised form). This covers a key that is absent from both stores.
\<close>

definition holds_only_none :: "string \<Rightarrow> redis_server \<Rightarrow> cache_service \<Rightarrow> bool" where
  "holds_only_none key srv cs =
     (list_all (\<lambda>x. fst x = key \<longrightarrow> fst (snd x) = ''null'') (store srv) \<and>
      list_all (\<lambda>x. fst x = key \<longrightarrow> fst (snd x) = PyNone) (memory_cache cs))"

text \<open>
  The scenario of the cache's testable property: \<open>set\<close> at time \<open>now\<close>, then \<open>get\<close> of
  the same key at time \<open>later\<close>; the value that \<open>get\<close> returns.
\<close>

definition set_then_get :: "json \<Rightarrow> int \<Rightarrow> int \<Rightarrow> redis_server \<Rightarrow> cache_service \<Rightarrow> string \<Rightarrow> pyval
    \<Rightarrow> int \<Rightarrow> pyval \<Rightarrow> exn + pyval" where
  "set_then_get J now later srv cs key val ttl dflt =
     (case set' J now srv cs key val ttl of
        Inl e \<Rightarrow> Inl e
      | Inr (ok, srv1, cs1) \<Rightarrow>
          (case get J later srv1 cs1 key dflt of
             Inl e \<Rightarrow> Inl e
           | Inr (v, cs2) \<Rightarrow> Inr v))"

text \<open>
  A small codec for the examples below: it serialises \<open>None\<close> and strings without
  special characters as \<open>json\<close> does, reads them back, reads \<open>{}\<close> as the empty
  dictionary, and handles nothing else.
\<close>

definition example_dumps :: "pyval \<Rightarrow> exn + string" where
  "example_dumps v =
     (case v of
        PyNone \<Rightarrow> Inr ''null''
      | PyStr s \<Rightarrow> Inr ([CHR 0x22] @ s @ [CHR 0x22])
      | _ \<Rightarrow> Inl (Exn ''TypeError'' ''not serialised by the example codec''))"

definition example_loads :: "string \<Rightarrow> exn + pyval" where
  "example_loads s =
     (if s = ''null'' then Inr PyNone
      else if s = ''{}'' then Inr (PyDict [])
      else if 2 \<le> length s \<and> hd s = CHR 0x22 \<and> last s = CHR 0x22
        then Inr (PyStr (butlast (tl s)))
      else Inl (Exn ''JSONDecodeError'' ''not parsed by the example codec''))"

definition example_json :: json where
  "example_json = \<lparr>dumps = example_dumps, loads = example_loads\<rparr>"

text \<open>Two servers and the services constructed against them, for the examples.\<close>

definition server_up :: redis_server where
  "server_up = \<lparr>reachable = True, store = [(''celery'', ''queued-job'', None)]\<rparr>"

definition server_down :: redis_server where
  "server_down = \<lparr>reachable = False, store = []\<rparr>"

text \<open>\<open>CacheClearAPI.post\<close> (api/routes.py): the administrative clear-all operation.\<close>

definition cache_clear_post :: "redis_server \<Rightarrow> cache_service \<Rightarrow> pyval \<times> redis_server \<times> cache_service" where
  "cache_clear_post srv cs =
     (case clear srv cs of
        Inl e \<Rightarrow> (PyDict [(''success'', PyBool False), (''error'', PyStr (msg e))], srv, cs)
      | Inr (success, srv', cs') \<Rightarrow>
          (PyDict [(''success'', PyBool success),
                   (''message'', PyStr (if success then ''Cache cleared successfully''
                                        else ''Failed to clear cache''))], srv', cs'))"

section \<open>Generation client (services/openai\_service.py)\<close>

subsection \<open>Strings and dictionaries\<close>

text \<open>
  \<open>str.strip()\<close> removes leading and trailing whitespace; on the ASCII range the
  whitespace characters are the codes 9 to 13, 28 to 32.
\<close>

definition isspace :: "char \<Rightarrow> bool" where
  "isspace c = (let n = of_char c :: nat in (9 \<le> n \<and> n \<le> 13) \<or> (28 \<le> n \<and> n \<le> 32))"

definition strip :: "string \<Rightarrow> string" where
  "strip s = rev (dropWhile isspace (rev (dropWhile isspace s)))"

text \<open>
  \<open>s.find(c)\<close> and \<open>s.rfind(c)\<close> for a character that occurs in \<open>s\<close> (the callers
  test that first), and the slice \<open>s[start:end]\<close> for indices within the string.
\<close>

definition find :: "string \<Rightarrow> char \<Rightarrow> nat" where
  "find s c = length (takeWhile (\<lambda>x. x \<noteq> c) s)"

definition rfind :: "string \<Rightarrow> char \<Rightarrow> nat" where
  "rfind s c = length s - Suc (length (takeWhile (\<lambda>x. x \<noteq> c) (rev s)))"

definition slice :: "string \<Rightarrow> nat \<Rightarrow> nat \<Rightarrow> string" where
  "slice s start end = take (end - start) (drop start s)"

definition dict_get :: "(string \<times> pyval) list \<Rightarrow> string \<Rightarrow> pyval \<Rightarrow> pyval" where
  "dict_get d k dflt = (case map_of d k of None \<Rightarrow> dflt | Some v \<Rightarrow> v)"

definition dict_has :: "(string \<times> pyval) list \<Rightarrow> string \<Rightarrow> bool" where
  "dict_has d k = (map_of d k \<noteq> None)"

subsection \<open>Parsing the response text\<close>

text \<open>
  The text between the first \<open>{\<close> and the last \<open>}\<close>, handed to \<open>json.loads\<close>. This is
  the part shared by \<open>_parse_ad_copy_response\<close> and \<open>_parse_seo_response\<close>: \<open>None\<close>
  when a brace is missing; otherwise what \<open>json.loads\<close> returns or raises.
\<close>

definition extract_json :: "json \<Rightarrow> string \<Rightarrow> exn + pyval option" where
  "extract_json J content =
     (if CHR ''{'' \<in> set content \<and> CHR ''}'' \<in> set content then
        (let start = find content CHR ''{'';
             end = rfind content CHR ''}'' + 1;
             json_str = slice content start end
         in case loads J json_str of Inl e \<Rightarrow> Inl e | Inr v \<Rightarrow> Inr (Some v))
      else Inr None)"

definition parse_ad_copy_response :: "json \<Rightarrow> string \<Rightarrow> pyval" where
  "parse_ad_copy_response J content =
     (case extract_json J content of
        Inl e \<Rightarrow> PyNone
      | Inr None \<Rightarrow> PyNone
      | Inr (Some parsed) \<Rightarrow> parsed)"

text \<open>
  \<open>_parse_seo_response\<close>. A parsed value that is not a dictionary ends in \<open>None\<close> on
  every path: the membership test or the subscript raises, or no branch applies, or
  \<open>.get\<close> does not exist; the handler turns each raise into \<open>None\<close>.
\<close>

definition parse_seo_response :: "json \<Rightarrow> string \<Rightarrow> string \<Rightarrow> pyval" where
  "parse_seo_response J content content_type =
     (case extract_json J content of
        Inl e \<Rightarrow> PyNone
      | Inr None \<Rightarrow> PyNone
      | Inr (Some (PyDict parsed)) \<Rightarrow>
          if content_type = ''titles'' \<and> dict_has parsed ''titles'' then
            PyDict [(''titles'', dict_get parsed ''titles'' PyNone), (''descriptions'', PyList [])]
          else if content_type = ''descriptions'' \<and> dict_has parsed ''descriptions'' then
            PyDict [(''titles'', PyList []), (''descriptions'', dict_get parsed ''descriptions'' PyNone)]
          else if content_type = ''both'' then
            PyDict [(''titles'', dict_get parsed ''titles'' (PyList [])),
                    (''descriptions'', dict_get parsed ''descriptions'' (PyList []))]
          else PyNone
      | Inr (Some other) \<Rightarrow> PyNone)"

subsection \<open>The external capability and the retry wrapper\<close>

text \<open>
  The external call \<open>openai.ChatCompletion.create\<close>: \<open>api n\<close> is the outcome of request
  number \<open>n\<close>, either the text of the first choice or a raised error (a malformed
  response object raises as well, inside the same \<open>try\<close>). The client's state counts
  the requests made and records the back-off delays slept.
\<close>

record client_state =
  api_calls :: nat
  slept :: "int list"

text \<open>
  \<open>tenacity.retry(stop=stop_after_attempt(n), wait=wait_exponential(multiplier=1, min=2,
  max=10))\<close>: call the decorated function; when it raises and fewer than \<open>n\<close> attempts
  have been made, sleep and call it again; when it raises on the last attempt, raise
  \<open>RetryError\<close>. A function that returns is never called again.
\<close>

definition wait_exponential :: "nat \<Rightarrow> int" where
  "wait_exponential attempt_number = max 2 (min (2 ^ (attempt_number - 1)) 10)"

function retry_call :: "int \<Rightarrow> (client_state \<Rightarrow> (exn + 'a) \<times> client_state) \<Rightarrow> nat \<Rightarrow> client_state
    \<Rightarrow> (exn + 'a) \<times> client_state" where
  "retry_call max_attempts f attempt_number st =
     (case f st of
        (Inr r, st1) \<Rightarrow> (Inr r, st1)
      | (Inl e, st1) \<Rightarrow>
          if max_attempts \<le> int attempt_number then (Inl (Exn ''RetryError'' (msg e)), st1)
          else retry_call max_attempts f (Suc attempt_number)
                 (st1\<lparr>slept := slept st1 @ [wait_exponential attempt_number]\<rparr>))"
  by pat_completeness auto
termination
  by (relation "measure (\<lambda>(m, f, a, st). nat (m - int a))") auto

subsection \<open>OpenAIService\<close>

text \<open>
  The \<open>try\<close> block of \<open>generate_ad_copy\<close>, the function with its handler, and the
  function as decorated. Logging is left out.
\<close>

definition generate_ad_copy_try :: "json \<Rightarrow> (nat \<Rightarrow> exn + string) \<Rightarrow> client_state
    \<Rightarrow> (exn + pyval) \<times> client_state" where
  "generate_ad_copy_try J api st =
     (let st1 = st\<lparr>api_calls := Suc (api_calls st)\<rparr> in
      case api (api_calls st) of
        Inl e \<Rightarrow> (Inl e, st1)
      | Inr text \<Rightarrow> (Inr (parse_ad_copy_response J (strip text)), st1))"

definition generate_ad_copy_body :: "json \<Rightarrow> (nat \<Rightarrow> exn + string) \<Rightarrow> client_state
    \<Rightarrow> (exn + pyval) \<times> client_state" where
  "generate_ad_copy_body J api st =
     (case generate_ad_copy_try J api st of
        (Inl e, st1) \<Rightarrow> (Inr PyNone, st1)
      | (Inr result, st1) \<Rightarrow> (Inr result, st1))"

definition generate_ad_copy :: "int \<Rightarrow> json \<Rightarrow> (nat \<Rightarrow> exn + string) \<Rightarrow> client_state
    \<Rightarrow> (exn + pyval) \<times> client_state" where
  "generate_ad_copy MAX_RETRIES J api st = retry_call MAX_RETRIES (generate_ad_copy_body J api) 1 st"

definition generate_seo_content_try :: "json \<Rightarrow> (nat \<Rightarrow> exn + string) \<Rightarrow> string \<Rightarrow> client_state
    \<Rightarrow> (exn + pyval) \<times> client_state" where
  "generate_seo_content_try J api content_type st =
     (let st1 = st\<lparr>api_calls := Suc (api_calls st)\<rparr> in
      case api (api_calls st) of
        Inl e \<Rightarrow> (Inl e, st1)
      | Inr text \<Rightarrow> (Inr (parse_seo_response J (strip text) content_type), st1))"

definition generate_seo_content_body :: "json \<Rightarrow> (nat \<Rightarrow> exn + string) \<Rightarrow> string \<Rightarrow> client_state
    \<Rightarrow> (exn + pyval) \<times> client_state" where
  "generate_seo_content_body J api content_type st =
     (case generate_seo_content_try J api content_type st of
        (Inl e, st1) \<Rightarrow> (Inr PyNone, st1)
      | (Inr result, st1) \<Rightarrow> (Inr result, st1))"

definition generate_seo_content :: "int \<Rightarrow> json \<Rightarrow> (nat \<Rightarrow> exn + string) \<Rightarrow> string \<Rightarrow> client_state
    \<Rightarrow> (exn + pyval) \<times> client_state" where
  "generate_seo_content MAX_RETRIES J api content_type st =
     retry_call MAX_RETRIES (generate_seo_content_body J api content_type) 1 st"

text \<open>For contrast, a decorated function whose errors reach the wrapper.\<close>

definition always_raising :: "exn \<Rightarrow> client_state \<Rightarrow> (exn + pyval) \<times> client_state" where
  "always_raising e st = (Inl e, st\<lparr>api_calls := Suc (api_calls st)\<rparr>)"

text \<open>External capabilities for the examples.\<close>

definition rate_limited :: "nat \<Rightarrow> exn + string" where
  "rate_limited n = Inl (Exn ''RateLimitError'' ''rate limit reached'')"

definition fails_once :: "nat \<Rightarrow> exn + string" where
  "fails_once n = (if n = 0 then Inl (Exn ''Timeout'' ''request timed out'')
                   else Inr ''Here it is: {}'')"

definition plain_text :: "nat \<Rightarrow> exn + string" where
  "plain_text n = Inr ''Sorry, I cannot help with that.''"

text \<open>
  A response text without a parseable JSON object: a brace is missing, or \<open>json.loads\<close>
  rejects the text between the first \<open>{\<close> and the last \<open>}\<close>.
\<close>

definition no_payload :: "json \<Rightarrow> string \<Rightarrow> bool" where
  "no_payload J content =
     (CHR ''{'' \<notin> set content \<or> CHR ''}'' \<notin> set content
      \<or> isl (loads J (slice content (find content CHR ''{'') (rfind content CHR ''}'' + 1))))"

section \<open>Bulk processor (app.py, services/tasks.py)\<close>

subsection \<open>Type names and operators on dynamic values\<close>

text \<open>
  The name of a value's type as Python prints it in an error message, and a name
  between single or double quotes.
\<close>

fun type_name :: "pyval \<Rightarrow> string" where
  "type_name PyNone = ''NoneType''"
| "type_name (PyBool b) = ''bool''"
| "type_name (PyInt n) = ''int''"
| "type_name PyNaN = ''float''"
| "type_name (PyStr s) = ''str''"
| "type_name (PyList xs) = ''list''"
| "type_name (PyDict d) = ''dict''"

definition quoted :: "string \<Rightarrow> string" where
  "quoted s = [CHR 0x27] @ s @ [CHR 0x27]"

definition dquoted :: "string \<Rightarrow> string" where
  "dquoted s = [CHR 0x22] @ s @ [CHR 0x22]"

text \<open>
  \<open>index + 1\<close> for the index label of a row: numbers add, a string or a list refuses
  to be concatenated with an integer, the other values have no such operator.
\<close>

fun plus_one :: "pyval \<Rightarrow> exn + pyval" where
  "plus_one (PyInt n) = Inr (PyInt (n + 1))"
| "plus_one (PyBool b) = Inr (PyInt ((if b then 1 else 0) + 1))"
| "plus_one PyNaN = Inr PyNaN"
| "plus_one (PyStr s) =
     Inl (Exn ''TypeError'' (''can only concatenate str (not '' @ dquoted ''int'' @ '') to str''))"
| "plus_one (PyList xs) =
     Inl (Exn ''TypeError'' (''can only concatenate list (not '' @ dquoted ''int'' @ '') to list''))"
| "plus_one v =
     Inl (Exn ''TypeError'' (''unsupported operand type(s) for +: '' @ quoted (type_name v)
                             @ '' and '' @ quoted ''int''))"

subsection \<open>Dictionaries under construction\<close>

text \<open>
  \<open>d[k] = v\<close> keeps the position of a key already present and appends a new one;
  \<open>{**d, **e}\<close> applies it for every item of \<open>e\<close> in order. \<open>**e\<close> needs a mapping.
\<close>

definition dict_set :: "(string \<times> pyval) list \<Rightarrow> string \<Rightarrow> pyval \<Rightarrow> (string \<times> pyval) list" where
  "dict_set d k v =
     (if k \<in> set (map fst d) then map (\<lambda>x. if fst x = k then (k, v) else x) d
      else d @ [(k, v)])"

definition dict_update :: "(string \<times> pyval) list \<Rightarrow> (string \<times> pyval) list \<Rightarrow> (string \<times> pyval) list" where
  "dict_update d e = foldl (\<lambda>acc x. dict_set acc (fst x) (snd x)) d e"

definition dict_spread :: "(string \<times> pyval) list \<Rightarrow> pyval \<Rightarrow> exn + (string \<times> pyval) list" where
  "dict_spread d v =
     (case v of
        PyDict e \<Rightarrow> Inr (dict_update d e)
      | _ \<Rightarrow> Inl (Exn ''TypeError'' (quoted (type_name v) @ '' object is not a mapping'')))"

subsection \<open>The collaborators of a bulk run\<close>

text \<open>
  The collaborators act on the outside world (network, cache, task queue), of type
  \<open>'w\<close>; each call either returns or raises and leaves a new world. \<open>read_csv\<close> is
  pandas' parser. A data frame is the list of what \<open>df.iterrows()\<close> yields: pairs of
  an index label and a row, a row being the association of column names to cells. The
  labels are 0, 1, 2, ... when every data line has as many fields as the header; when the
  data lines have one field more, pandas takes the first field of each line as its label.
  \<open>fetch_url_content\<close> returns the page or \<open>None\<close>; \<open>generate_seo_content_cached\<close> is
  \<open>generate_seo_content\<close> of app.py, the generation call behind the cache wrapper, with
  the job's fixed options; \<open>seo_task\<close> is
  \<open>generate_seo_content_async.delay(...).get(timeout=300)\<close>, which raises on a timeout.
\<close>

type_synonym row = "(string \<times> pyval) list"

type_synonym frame = "(pyval \<times> row) list"

record 'w collaborators =
  read_csv :: "string \<Rightarrow> exn + frame"
  fetch_url_content :: "pyval \<Rightarrow> 'w \<Rightarrow> (exn + pyval) \<times> 'w"
  extract_text_from_html :: "pyval \<Rightarrow> exn + pyval"
  generate_seo_content_cached :: "pyval \<Rightarrow> pyval \<Rightarrow> pyval \<Rightarrow> 'w \<Rightarrow> (exn + pyval) \<times> 'w"
  seo_task :: "pyval \<Rightarrow> pyval \<Rightarrow> pyval \<Rightarrow> 'w \<Rightarrow> (exn + pyval) \<times> 'w"

definition error_result :: "pyval \<Rightarrow> string \<Rightarrow> row" where
  "error_result url message = [(''url'', url), (''error'', PyStr message)]"

subsection \<open>process\_bulk\_seo\_csv (app.py)\<close>

text \<open>
  The log messages of the loop are left out but for what they evaluate: with a logger
  configured (\<open>if logger:\<close>), the messages of the loop body and of its handler format
  \<open>index + 1\<close>.
\<close>

definition log_row_number :: "bool \<Rightarrow> pyval \<Rightarrow> exn + unit" where
  "log_row_number logger index =
     (if logger then (case plus_one index of Inl e \<Rightarrow> Inl e | Inr n \<Rightarrow> Inr ())
      else Inr ())"

text \<open>
  The work of the \<open>try\<close> block on a row: the result it appends, or the error it raises.
  The messages logged on the way format \<open>index + 1\<close> again, which has been evaluated
  before; only the first evaluation, in \<open>seo_row_try\<close>, can raise.
\<close>

definition seo_row_work :: "'w collaborators \<Rightarrow> pyval \<Rightarrow> row \<Rightarrow> 'w \<Rightarrow> (exn + row) \<times> 'w" where
  "seo_row_work C default_brand_name row w =
     (let url = dict_get row ''url'' (PyStr '''');
          keywords = dict_get row ''keywords'' (PyStr '''');
          brand_name = dict_get row ''brand_name'' default_brand_name
      in if truthy url \<and> truthy keywords then
           (case fetch_url_content C url w of
              (Inl e, w1) \<Rightarrow> (Inl e, w1)
            | (Inr html_content, w1) \<Rightarrow>
                if truthy html_content then
                  (case extract_text_from_html C html_content of
                     Inl e \<Rightarrow> (Inl e, w1)
                   | Inr url_text \<Rightarrow>
                       (case generate_seo_content_cached C url_text keywords brand_name w1 of
                          (Inl e, w2) \<Rightarrow> (Inl e, w2)
                        | (Inr seo_content, w2) \<Rightarrow>
                            (dict_spread [(''url'', url), (''keywords'', keywords),
                                          (''brand_name'', brand_name)] seo_content, w2)))
                else (Inr (error_result url ''Failed to fetch content from URL''), w1))
         else (Inr (error_result url ''Missing URL or keywords''), w))"

text \<open>The \<open>try\<close> block of the loop body: the row number is logged first.\<close>

definition seo_row_try :: "'w collaborators \<Rightarrow> bool \<Rightarrow> pyval \<Rightarrow> pyval \<Rightarrow> row \<Rightarrow> 'w
    \<Rightarrow> (exn + row) \<times> 'w" where
  "seo_row_try C logger default_brand_name index row w =
     (case log_row_number logger index of
        Inl e \<Rightarrow> (Inl e, w)
      | Inr u \<Rightarrow> seo_row_work C default_brand_name row w)"

text \<open>
  The loop body with its handler. The handler logs the row number before it appends the
  failure outcome, so an error raised there leaves the loop.
\<close>

definition seo_row :: "'w collaborators \<Rightarrow> bool \<Rightarrow> pyval \<Rightarrow> pyval \<Rightarrow> row \<Rightarrow> 'w
    \<Rightarrow> (exn + row) \<times> 'w" where
  "seo_row C logger default_brand_name index row w =
     (case seo_row_try C logger default_brand_name index row w of
        (Inl e, w1) \<Rightarrow>
          (case log_row_number logger index of
             Inl e2 \<Rightarrow> (Inl e2, w1)
           | Inr u \<Rightarrow> (Inr (error_result (dict_get row ''url'' (PyStr '''')) (msg e)), w1))
      | (Inr result, w1) \<Rightarrow> (Inr result, w1))"

text \<open>The loop over \<open>df.iterrows()\<close>, appending to \<open>results\<close>; an error ends it.\<close>

fun bulk_loop :: "(pyval \<Rightarrow> row \<Rightarrow> 'w \<Rightarrow> (exn + row) \<times> 'w) \<Rightarrow> frame \<Rightarrow> row list \<Rightarrow> 'w
    \<Rightarrow> (exn + row list) \<times> 'w" where
  "bulk_loop body [] results w = (Inr results, w)"
| "bulk_loop body (x # rest) results w =
     (case body (fst x) (snd x) w of
        (Inl e, w1) \<Rightarrow> (Inl e, w1)
      | (Inr result, w1) \<Rightarrow> bulk_loop body rest (results @ [result]) w1)"

text \<open>The function: an error of the parser or of the loop is logged and raised again.\<close>

definition process_bulk_seo_csv :: "'w collaborators \<Rightarrow> bool \<Rightarrow> string \<Rightarrow> pyval \<Rightarrow> 'w
    \<Rightarrow> (exn + row list) \<times> 'w" where
  "process_bulk_seo_csv C logger file_content default_brand_name w =
     (case read_csv C file_content of
        Inl e \<Rightarrow> (Inl e, w)
      | Inr df \<Rightarrow> bulk_loop (seo_row C logger default_brand_name) df [] w)"

section \<open>Task handlers (services/tasks.py)\<close>

text \<open>
  A handler reports progress with \<open>self.update_state(state='PROGRESS', meta={'current': c,
  'total': 100, 'status': ...})\<close>. The model records the sequence of the \<open>current\<close>
  values it emits, in order, and takes each report to succeed. The result dictionaries
  leave out the wall-clock \<open>duration\<close>.
\<close>

definition task_success :: "pyval \<Rightarrow> string \<Rightarrow> pyval" where
  "task_success result task_id =
     PyDict [(''success'', PyBool True), (''result'', result), (''task_id'', PyStr task_id)]"

definition task_failure :: "string \<Rightarrow> string \<Rightarrow> pyval" where
  "task_failure error task_id =
     PyDict [(''success'', PyBool False), (''error'', PyStr error), (''task_id'', PyStr task_id)]"

text \<open>
  \<open>generate_ad_copy_async\<close> and \<open>generate_seo_content_async\<close>. \<open>OpenAIService()\<close>
  raises when no API key is configured. The arguments of the call only shape the prompt.
\<close>

definition generate_ad_copy_async :: "bool \<Rightarrow> int \<Rightarrow> json \<Rightarrow> (nat \<Rightarrow> exn + string) \<Rightarrow> string
    \<Rightarrow> client_state \<Rightarrow> int list \<times> pyval \<times> client_state" where
  "generate_ad_copy_async api_key_configured MAX_RETRIES J api task_id st =
     (if \<not> api_key_configured then
        ([0, 25], task_failure ''OpenAI API key not configured'' task_id, st)
      else
        (case generate_ad_copy MAX_RETRIES J api st of
           (Inl e, st1) \<Rightarrow> ([0, 25, 50], task_failure (msg e) task_id, st1)
         | (Inr result, st1) \<Rightarrow>
             ([0, 25, 50, 90],
              if truthy result then task_success result task_id
              else task_failure ''Failed to generate ad copy'' task_id,
              st1)))"

definition generate_seo_content_async :: "bool \<Rightarrow> int \<Rightarrow> json \<Rightarrow> (nat \<Rightarrow> exn + string) \<Rightarrow> string
    \<Rightarrow> string \<Rightarrow> client_state \<Rightarrow> int list \<times> pyval \<times> client_state" where
  "generate_seo_content_async api_key_configured MAX_RETRIES J api content_type task_id st =
     (if \<not> api_key_configured then
        ([0, 25], task_failure ''OpenAI API key not configured'' task_id, st)
      else
        (case generate_seo_content MAX_RETRIES J api content_type st of
           (Inl e, st1) \<Rightarrow> ([0, 25, 50], task_failure (msg e) task_id, st1)
         | (Inr result, st1) \<Rightarrow>
             ([0, 25, 50, 90],
              if truthy result then task_success result task_id
              else task_failure ''Failed to generate SEO content'' task_id,
              st1)))"

subsection \<open>process\_bulk\_csv\_async\<close>

text \<open>
  The \<open>try\<close> block of the loop body, and the body with its handler. A sub-task result
  that is not a dictionary has no \<open>get\<close>; one that reports success without a
  \<open>result\<close> raises \<open>KeyError\<close>, whose message is the quoted key.
\<close>

definition task_row_try :: "'w collaborators \<Rightarrow> pyval \<Rightarrow> row \<Rightarrow> 'w \<Rightarrow> (exn + row) \<times> 'w" where
  "task_row_try C default_brand_name row w =
     (let url = dict_get row ''url'' (PyStr '''');
          keywords = dict_get row ''keywords'' (PyStr '''');
          brand_name = dict_get row ''brand_name'' default_brand_name
      in if truthy url \<and> truthy keywords then
           (case seo_task C url keywords brand_name w of
              (Inl e, w1) \<Rightarrow> (Inl e, w1)
            | (Inr (PyDict seo_content), w1) \<Rightarrow>
                if truthy (dict_get seo_content ''success'' PyNone) then
                  (case map_of seo_content ''result'' of
                     None \<Rightarrow> (Inl (Exn ''KeyError'' (quoted ''result'')), w1)
                   | Some result \<Rightarrow>
                       (dict_spread [(''url'', url), (''keywords'', keywords),
                                     (''brand_name'', brand_name)] result, w1))
                else
                  (Inr [(''url'', url),
                        (''error'', dict_get seo_content ''error'' (PyStr ''Unknown error''))], w1)
            | (Inr other, w1) \<Rightarrow>
                (Inl (Exn ''AttributeError'' (quoted (type_name other) @ '' object has no attribute ''
                                              @ quoted ''get'')), w1))
         else (Inr (error_result url ''Missing URL or keywords''), w))"

definition task_row :: "'w collaborators \<Rightarrow> pyval \<Rightarrow> row \<Rightarrow> 'w \<Rightarrow> row \<times> 'w" where
  "task_row C default_brand_name row w =
     (case task_row_try C default_brand_name row w of
        (Inl e, w1) \<Rightarrow> (error_result (dict_get row ''url'' (PyStr '''')) (msg e), w1)
      | (Inr result, w1) \<Rightarrow> (result, w1))"

text \<open>
  \<open>int(q)\<close> for the quotient \<open>q = a / b\<close> of two integers, \<open>b\<close> positive: the
  quotient cut towards zero.
\<close>

definition trunc_div :: "int \<Rightarrow> int \<Rightarrow> int" where
  "trunc_div a b = (if 0 \<le> a then a div b else - ((- a) div b))"

text \<open>
  \<open>progress = int((index / total_rows) * 80) + 10\<close>, computed from the index label of
  the row before the row's \<open>try\<close> is entered. A label that is no number cannot be
  divided, and the float \<open>nan\<close> cannot be converted. The quotient and the product are
  floating-point numbers in the source and exact here; the two agree wherever both are
  representable without rounding, as they are for the labels and totals of the examples
  below (5 / 2 = 2.5 and 200.0, 1 / 2 = 0.5 and 40.0).
\<close>

fun row_progress :: "pyval \<Rightarrow> nat \<Rightarrow> exn + int" where
  "row_progress (PyInt i) total_rows = Inr (trunc_div (i * 80) (int total_rows) + 10)"
| "row_progress (PyBool b) total_rows =
     Inr (trunc_div ((if b then 1 else 0) * 80) (int total_rows) + 10)"
| "row_progress PyNaN total_rows = Inl (Exn ''ValueError'' ''cannot convert float NaN to integer'')"
| "row_progress v total_rows =
     Inl (Exn ''TypeError'' (''unsupported operand type(s) for /: '' @ quoted (type_name v)
                             @ '' and '' @ quoted ''int''))"

text \<open>
  The loop over \<open>df.iterrows()\<close>: the progress of the row is computed and reported, then
  the body runs. An error of the progress computation ends the loop.
\<close>

fun task_loop :: "(row \<Rightarrow> 'w \<Rightarrow> row \<times> 'w) \<Rightarrow> nat \<Rightarrow> frame \<Rightarrow> row list \<Rightarrow> int list \<Rightarrow> 'w
    \<Rightarrow> (exn + row list) \<times> int list \<times> 'w" where
  "task_loop body total_rows [] results emitted w = (Inr results, emitted, w)"
| "task_loop body total_rows (x # rest) results emitted w =
     (case row_progress (fst x) total_rows of
        Inl e \<Rightarrow> (Inl e, emitted, w)
      | Inr progress \<Rightarrow>
          (case body (snd x) w of
             (result, w1) \<Rightarrow>
               task_loop body total_rows rest (results @ [result]) (emitted @ [progress]) w1))"

text \<open>
  The task: an error of the parser or of the loop is caught by the outer handler, which
  returns a failure without results.
\<close>

definition process_bulk_csv_async :: "'w collaborators \<Rightarrow> string \<Rightarrow> pyval \<Rightarrow> string
    \<Rightarrow> 'w \<Rightarrow> int list \<times> pyval \<times> 'w" where
  "process_bulk_csv_async C csv_content default_brand_name task_id w =
     (case read_csv C csv_content of
        Inl e \<Rightarrow> ([0], task_failure (msg e) task_id, w)
      | Inr df \<Rightarrow>
          (case task_loop (task_row C default_brand_name) (length df) df [] [0] w of
             (Inl e, emitted, w1) \<Rightarrow> (emitted, task_failure (msg e) task_id, w1)
           | (Inr results, emitted, w1) \<Rightarrow>
               (emitted @ [95],
                PyDict [(''success'', PyBool True),
                        (''results'', PyList (map PyDict results)),
                        (''total_processed'', PyInt (int (length df))),
                        (''task_id'', PyStr task_id)],
                w1)))"

text \<open>The result dictionary of a bulk task, and the results it carries.\<close>

definition task_result :: "int list \<times> pyval \<times> 'w \<Rightarrow> pyval" where
  "task_result r = fst (snd r)"

definition task_results :: "int list \<times> pyval \<times> 'w \<Rightarrow> pyval" where
  "task_results r = (case fst (snd r) of PyDict d \<Rightarrow> dict_get d ''results'' PyNone | _ \<Rightarrow> PyNone)"

subsection \<open>Outcomes of a run\<close>

text \<open>
  The outcome that \<open>process_bulk_seo_csv\<close> records for a row whose number can be logged:
  the result of the row's work, or the failure outcome made of the URL and the message of
  the error raised.
\<close>

definition seo_outcome :: "'w collaborators \<Rightarrow> pyval \<Rightarrow> row \<Rightarrow> 'w \<Rightarrow> row \<times> 'w" where
  "seo_outcome C default_brand_name row w =
     (case seo_row_work C default_brand_name row w of
        (Inl e, w1) \<Rightarrow> (error_result (dict_get row ''url'' (PyStr '''')) (msg e), w1)
      | (Inr result, w1) \<Rightarrow> (result, w1))"

text \<open>
  The outcome of each row, in order, each row processed in the world its predecessors
  left behind; and the world in which a given row is processed.
\<close>

fun outcomes :: "(row \<Rightarrow> 'w \<Rightarrow> row \<times> 'w) \<Rightarrow> row list \<Rightarrow> 'w \<Rightarrow> row list" where
  "outcomes body [] w = []"
| "outcomes body (row # rest) w = fst (body row w) # outcomes body rest (snd (body row w))"

fun world_after :: "(row \<Rightarrow> 'w \<Rightarrow> row \<times> 'w) \<Rightarrow> row list \<Rightarrow> 'w \<Rightarrow> 'w" where
  "world_after body [] w = w"
| "world_after body (row # rest) w = world_after body rest (snd (body row w))"

text \<open>A frame whose index labels are integers, as the default index is.\<close>

definition int_labelled :: "frame \<Rightarrow> bool" where
  "int_labelled df = list_all (\<lambda>x. case fst x of PyInt i \<Rightarrow> True | _ \<Rightarrow> False) df"

text \<open>
  Collaborators for the examples. The input \<open>csv\<close> parses to three rows A, B, C under
  the default index; the page of B cannot be fetched and the sub-task of B times out.
  The inputs \<open>shifted\<close> and \<open>lettered\<close> have a header of two columns over data lines
  of three fields, so the first field of each line is its label: the numbers 5 and 1 in
  the one, the letters x and y in the other. The input \<open>ragged\<close> has two data lines
  under a header of two columns, the second line (line 3 of the file) of three fields,
  which the parser rejects; it rejects any other input as having no columns. The world
  counts the calls made.
\<close>

definition example_frame :: frame where
  "example_frame =
     [(PyInt 0, [(''url'', PyStr ''A''), (''keywords'', PyStr ''ka'')]),
      (PyInt 1, [(''url'', PyStr ''B''), (''keywords'', PyStr ''kb''), (''brand_name'', PyStr ''BrandX'')]),
      (PyInt 2, [(''url'', PyStr ''C''), (''keywords'', PyStr ''kc'')])]"

definition shifted_frame :: frame where
  "shifted_frame =
     [(PyInt 5, [(''url'', PyStr ''A''), (''keywords'', PyStr ''ka'')]),
      (PyInt 1, [(''url'', PyStr ''C''), (''keywords'', PyStr ''kc'')])]"

definition lettered_frame :: frame where
  "lettered_frame =
     [(PyStr ''x'', [(''url'', PyStr ''A''), (''keywords'', PyStr ''ka'')]),
      (PyStr ''y'', [(''url'', PyStr ''C''), (''keywords'', PyStr ''kc'')])]"

definition ragged_error :: exn where
  "ragged_error =
     Exn ''ParserError'' (''Error tokenizing data. C error: Expected 2 fields in line 3, saw 3''
                          @ [CHR 0x0A])"

definition example_content :: pyval where
  "example_content = PyDict [(''titles'', PyList [PyStr ''T1'', PyStr ''T2'']),
                             (''descriptions'', PyList [PyStr ''D1''])]"

definition example_collaborators :: "nat collaborators" where
  "example_collaborators =
     \<lparr>read_csv = (\<lambda>s. if s = ''csv'' then Inr example_frame
                       else if s = ''shifted'' then Inr shifted_frame
                       else if s = ''lettered'' then Inr lettered_frame
                       else if s = ''ragged'' then Inl ragged_error
                       else Inl (Exn ''EmptyDataError'' ''No columns to parse from file'')),
      fetch_url_content = (\<lambda>url w. (if url = PyStr ''B'' then Inl (Exn ''ConnectionError'' ''unreachable'')
                                     else Inr (PyStr ''page''), Suc w)),
      extract_text_from_html = (\<lambda>html. Inr html),
      generate_seo_content_cached = (\<lambda>text keywords brand w. (Inr example_content, Suc w)),
      seo_task = (\<lambda>url keywords brand w.
                    (if url = PyStr ''B'' then Inl (Exn ''TimeoutError'' ''The operation timed out.'')
                     else Inr (PyDict [(''success'', PyBool True), (''result'', example_content)]),
                     Suc w))\<rparr>"

section \<open>The bulk report (create\_seo\_csv, app.py)\<close>

text \<open>The decimal form of a number, as an f-string prints it.\<close>

function show_nat :: "nat \<Rightarrow> string" where
  "show_nat n =
     (if n < 10 then [''0123456789'' ! n]
      else show_nat (n div 10) @ [''0123456789'' ! (n mod 10)])"
  by pat_completeness auto
termination
  by (relation "measure (\<lambda>n. n)") auto

definition list_of :: "pyval \<Rightarrow> pyval list" where
  "list_of v = (case v of PyList xs \<Rightarrow> xs | _ \<Rightarrow> [])"

text \<open>
  The largest number of titles (or descriptions) that any result carries as a list: the
  first loop of \<open>create_seo_csv\<close>, for one of the two keys.
\<close>

definition max_count :: "string \<Rightarrow> row list \<Rightarrow> nat" where
  "max_count key results =
     foldl (\<lambda>m result. case map_of result key of
                           Some (PyList xs) \<Rightarrow> max m (length xs)
                         | _ \<Rightarrow> m) 0 results"

definition show_titles :: "string \<Rightarrow> bool" where
  "show_titles content_type = (content_type = ''both'' \<or> content_type = ''titles'')"

definition show_descriptions :: "string \<Rightarrow> bool" where
  "show_descriptions content_type = (content_type = ''both'' \<or> content_type = ''descriptions'')"

definition labels :: "string \<Rightarrow> nat \<Rightarrow> pyval list" where
  "labels prefix n = map (\<lambda>i. PyStr (prefix @ show_nat (i + 1))) [0 ..< n]"

definition csv_headers :: "string \<Rightarrow> nat \<Rightarrow> nat \<Rightarrow> pyval list" where
  "csv_headers content_type max_titles max_descriptions =
     [PyStr ''URL'', PyStr ''Keywords'', PyStr ''Brand Name'']
     @ (if show_titles content_type then labels ''Title '' max_titles else [])
     @ (if show_descriptions content_type then labels ''Description '' max_descriptions else [])"

text \<open>
  \<open>while len(x) < n: x.append(''')\<close> followed by \<open>x[:n]\<close>, for whatever value \<open>x\<close> the
  result holds under the key: a list is padded; a string long enough is cut into its
  characters, a shorter one has no \<open>append\<close>; a dictionary has no \<open>append\<close> or cannot
  be sliced; the other values have no length. (The padding is done in place on the
  list the result holds; the report does not depend on that.)
\<close>

fun padded :: "pyval \<Rightarrow> nat \<Rightarrow> exn + pyval list" where
  "padded (PyList xs) n = Inr (take n (xs @ replicate (n - length xs) (PyStr [])))"
| "padded (PyStr s) n =
     (if length s < n then Inl (Exn ''AttributeError'' ''str object has no attribute append'')
      else Inr (map (\<lambda>c. PyStr [c]) (take n s)))"
| "padded (PyDict d) n =
     (if length d < n then Inl (Exn ''AttributeError'' ''dict object has no attribute append'')
      else Inl (Exn ''TypeError'' ''unhashable type: slice''))"
| "padded v n = Inl (Exn ''TypeError'' ''object has no len()'')"

text \<open>The cells of the data row written for one result, or the error raised on the way.\<close>

definition csv_row :: "string \<Rightarrow> nat \<Rightarrow> nat \<Rightarrow> row \<Rightarrow> exn + pyval list" where
  "csv_row content_type max_titles max_descriptions result =
     (if dict_has result ''error'' then
        Inr ([dict_get result ''url'' (PyStr []), PyStr ''ERROR'',
              dict_get result ''brand_name'' (PyStr []), dict_get result ''error'' PyNone]
             @ (if show_titles content_type then replicate max_titles (PyStr []) else [])
             @ (if show_descriptions content_type then replicate max_descriptions (PyStr []) else []))
      else
        (case (if show_titles content_type
               then padded (dict_get result ''titles'' (PyList [])) max_titles else Inr []) of
           Inl e \<Rightarrow> Inl e
         | Inr titles \<Rightarrow>
             (case (if show_descriptions content_type
                    then padded (dict_get result ''descriptions'' (PyList [])) max_descriptions
                    else Inr []) of
                Inl e \<Rightarrow> Inl e
              | Inr descriptions \<Rightarrow>
                  Inr ([dict_get result ''url'' (PyStr []), dict_get result ''keywords'' (PyStr []),
                        dict_get result ''brand_name'' (PyStr [])] @ titles @ descriptions))))"

text \<open>The second loop: one row per result, stopping at the first error.\<close>

fun write_rows :: "(row \<Rightarrow> exn + pyval list) \<Rightarrow> row list \<Rightarrow> exn + pyval list list" where
  "write_rows f [] = Inr []"
| "write_rows f (result # rest) =
     (case f result of
        Inl e \<Rightarrow> Inl e
      | Inr cells \<Rightarrow>
          (case write_rows f rest of
             Inl e \<Rightarrow> Inl e
           | Inr rows \<Rightarrow> Inr (cells # rows)))"

text \<open>
  The report as the list of the rows handed to \<open>csv.writer\<close>, header first: the \<open>try\<close>
  block, and the function with its handler, which writes an error report instead.
\<close>

definition create_seo_csv_try :: "row list \<Rightarrow> string \<Rightarrow> exn + pyval list list" where
  "create_seo_csv_try results content_type =
     (if results = [] then
        Inr [[PyStr ''URL'', PyStr ''Keywords'', PyStr ''Brand Name'', PyStr ''Error''],
             [PyStr ''No data'', PyStr ''No data'', PyStr ''No data'', PyStr ''No results generated'']]
      else
        (let max_titles = max_count ''titles'' results;
             max_descriptions = max_count ''descriptions'' results
         in case write_rows (csv_row content_type max_titles max_descriptions) results of
              Inl e \<Rightarrow> Inl e
            | Inr rows \<Rightarrow> Inr (csv_headers content_type max_titles max_descriptions # rows)))"

definition create_seo_csv :: "row list \<Rightarrow> string \<Rightarrow> pyval list list" where
  "create_seo_csv results content_type =
     (case create_seo_csv_try results content_type of
        Inl e \<Rightarrow> [[PyStr ''Error''], [PyStr (''Failed to generate CSV: '' @ msg e)]]
      | Inr rows \<Rightarrow> rows)"

text \<open>A result whose titles and descriptions, where present, are lists.\<close>

definition lists_or_absent :: "row \<Rightarrow> bool" where
  "lists_or_absent result =
     ((case map_of result ''titles'' of None \<Rightarrow> True | Some v \<Rightarrow> (case v of PyList xs \<Rightarrow> True | _ \<Rightarrow> False))
      \<and> (case map_of result ''descriptions'' of None \<Rightarrow> True | Some v \<Rightarrow> (case v of PyList xs \<Rightarrow> True | _ \<Rightarrow> False)))"

text \<open>The list a result holds under a key, padded with empty strings to \<open>n\<close> cells.\<close>

definition cells_of :: "row \<Rightarrow> string \<Rightarrow> nat \<Rightarrow> pyval list" where
  "cells_of result key n =
     (let xs = list_of (dict_get result key (PyList [])) in xs @ replicate (n - length xs) (PyStr []))"

text \<open>The results of the example run above: A and C generated, B failed.\<close>

definition example_results :: "row list" where
  "example_results =
     [[(''url'', PyStr ''A''), (''keywords'', PyStr ''ka''), (''brand_name'', PyStr ''Brand''),
       (''titles'', PyList [PyStr ''T1'', PyStr ''T2'']), (''descriptions'', PyList [PyStr ''D1''])],
      [(''url'', PyStr ''B''), (''error'', PyStr ''unreachable'')],
      [(''url'', PyStr ''C''), (''keywords'', PyStr ''kc''), (''brand_name'', PyStr ''Brand''),
       (''titles'', PyList [PyStr ''T1'']), (''descriptions'', PyList [])]]"

text \<open>The cells of the row of a well-formed result.\<close>

definition expected_row :: "string \<Rightarrow> nat \<Rightarrow> nat \<Rightarrow> row \<Rightarrow> pyval list" where
  "expected_row content_type max_titles max_descriptions result =
     (if dict_has result ''error'' then
        [dict_get result ''url'' (PyStr []), PyStr ''ERROR'',
         dict_get result ''brand_name'' (PyStr []), dict_get result ''error'' PyNone]
        @ (if show_titles content_type then replicate max_titles (PyStr []) else [])
        @ (if show_descriptions content_type then replicate max_descriptions (PyStr []) else [])
      else
        [dict_get result ''url'' (PyStr []), dict_get result ''keywords'' (PyStr []),
         dict_get result ''brand_name'' (PyStr [])]
        @ (if show_titles content_type then cells_of result ''titles'' max_titles else [])
        @ (if show_descriptions content_type then cells_of result ''descriptions'' max_descriptions else []))"

text \<open>The results of a run over A and B only.\<close>

definition example_pair :: "row list" where
  "example_pair = take 2 example_results"

section \<open>Properties of the cache layer\<close>


lemma get_returns: "\<exists>v cs'. get J now srv cs key dflt = Inr (v, cs')"
  by (auto simp: get_def split: sum.splits)

lemma set_returns: "\<exists>ok srv' cs'. set' J now srv cs key val ttl = Inr (ok, srv', cs')"
  by (auto simp: set'_def split: sum.splits)

lemma map_of_all: "list_all (\<lambda>x. fst x = k \<longrightarrow> fst (snd x) = a) c \<Longrightarrow> map_of c k = Some y \<Longrightarrow> fst y = a"
  by (induction c) (auto split: if_splits)

lemma memory_get_none:
  assumes "list_all (\<lambda>x. fst x = key \<longrightarrow> fst (snd x) = PyNone) (memory_cache cs)"
  shows "\<exists>cs'. memory_get now cs key PyNone = Inr (PyNone, cs') \<and> redis_client cs' = redis_client cs
     \<and> list_all (\<lambda>x. fst x = key \<longrightarrow> fst (snd x) = PyNone) (memory_cache cs')"
  using assms map_of_all[OF assms]
  by (auto simp: memory_get_def ttl_contains_def ttl_getitem_def list_all_iff split: option.splits prod.splits)

lemma get_none:
  assumes "holds_only_none key srv cs" "loads J ''null'' = Inr PyNone"
  shows "\<exists>cs'. get J now srv cs key PyNone = Inr (PyNone, cs') \<and> holds_only_none key srv cs'
      \<and> redis_client cs' = redis_client cs"
proof -
  from assms(1) have m: "list_all (\<lambda>x. fst x = key \<longrightarrow> fst (snd x) = PyNone) (memory_cache cs)"
    and r: "list_all (\<lambda>x. fst x = key \<longrightarrow> fst (snd x) = ''null'') (store srv)"
    by (simp_all add: holds_only_none_def)
  from memory_get_none[OF m, of now] obtain cs' where
    mg: "memory_get now cs key PyNone = Inr (PyNone, cs')" "redis_client cs' = redis_client cs"
    "list_all (\<lambda>x. fst x = key \<longrightarrow> fst (snd x) = PyNone) (memory_cache cs')" by blast
  have rg: "redis_get now srv key = Inr (Some s) \<Longrightarrow> s = ''null''" for s
    using map_of_all[OF r]
    by (auto simp: redis_get_def split: if_splits option.splits prod.splits)
  show ?thesis
    using mg r m assms(2) rg
    by (auto simp: get_def get_body_def holds_only_none_def split: sum.splits option.splits)
qed


lemma set_none:
  assumes "holds_only_none key srv cs" "dumps J PyNone = Inr ''null''"
  shows "\<exists>ok srv' cs'. set' J now srv cs key PyNone ttl = Inr (ok, srv', cs') \<and> holds_only_none key srv' cs'"
  using assms
  by (auto simp: set'_def set_body_def redis_setex_def ttl_setitem_def ttl_expire_def
      holds_only_none_def list_all_iff Let_def split: sum.splits dest: in_set_dropD)

lemma cache_result_none_step:
  assumes "holds_only_none (generate_key md5 prefix args kwargs) srv cs"
    and "func calls = Inr PyNone"
    and "dumps J PyNone = Inr ''null''" "loads J ''null'' = Inr PyNone"
  shows "\<exists>srv' cs'. cache_result J md5 prefix ttl func args kwargs now now' (srv, cs, calls)
            = (Inr PyNone, srv', cs', Suc calls)
          \<and> holds_only_none (generate_key md5 prefix args kwargs) srv' cs'"
proof -
  let ?k = "generate_key md5 prefix args kwargs"
  from get_none[OF assms(1,4), of now] obtain cs1 where
    g: "get J now srv cs ?k PyNone = Inr (PyNone, cs1)" "holds_only_none ?k srv cs1" by blast
  from set_none[OF g(2) assms(3), of now' ttl] obtain ok srv2 cs2 where
    s: "set' J now' srv cs1 ?k PyNone ttl = Inr (ok, srv2, cs2)" "holds_only_none ?k srv2 cs2" by blast
  show ?thesis using g s assms(2) by (simp add: cache_result_def)
qed

lemma get_or_set_none_step:
  assumes "holds_only_none key srv cs"
    and "func calls = Inr PyNone"
    and "dumps J PyNone = Inr ''null''" "loads J ''null'' = Inr PyNone"
  shows "\<exists>srv' cs'. get_or_set J key func ttl now now' (srv, cs, calls)
            = (Inr PyNone, srv', cs', Suc calls)
          \<and> holds_only_none key srv' cs'"
proof -
  from get_none[OF assms(1,4), of now] obtain cs1 where
    g: "get J now srv cs key PyNone = Inr (PyNone, cs1)" "holds_only_none key srv cs1" by blast
  from set_none[OF g(2) assms(3), of now' ttl] obtain ok srv2 cs2 where
    s: "set' J now' srv cs1 key PyNone ttl = Inr (ok, srv2, cs2)" "holds_only_none key srv2 cs2" by blast
  show ?thesis using g s assms(2) by (simp add: get_or_set_def)
qed

lemma call_repeatedly_none:
  assumes step: "\<And>now now' srv cs calls. holds_only_none key srv cs \<Longrightarrow>
      \<exists>srv' cs'. f now now' (srv, cs, calls) = (Inr PyNone, srv', cs', Suc calls) \<and> holds_only_none key srv' cs'"
  shows "holds_only_none key srv cs \<Longrightarrow>
     fst (call_repeatedly f ts (srv, cs, calls)) = replicate (length ts) (Inr PyNone)
     \<and> invocations (call_repeatedly f ts (srv, cs, calls)) = calls + length ts"
proof (induction ts arbitrary: srv cs calls)
  case Nil
  then show ?case by (simp add: invocations_def)
next
  case (Cons t ts)
  from step[OF Cons.prems, of "fst t" "snd t" calls] obtain srv' cs' where
    f: "f (fst t) (snd t) (srv, cs, calls) = (Inr PyNone, srv', cs', Suc calls)"
    and inv: "holds_only_none key srv' cs'" by blast
  from Cons.IH[OF inv, of "Suc calls"] show ?case
    using f by (auto simp: invocations_def split: prod.splits)
qed


lemma cache_result_none_invoked:
  "fst (cache_result J md5 prefix ttl g args kwargs now now' st) = Inr PyNone \<Longrightarrow>
     invocations (cache_result J md5 prefix ttl g args kwargs now now' st) = Suc (snd (snd st))"
  by (cases st) (auto simp: cache_result_def invocations_def Let_def split: sum.splits prod.splits if_splits)

lemma get_or_set_none_invoked:
  "fst (get_or_set J key g ttl now now' st) = Inr PyNone \<Longrightarrow>
     invocations (get_or_set J key g ttl now now' st) = Suc (snd (snd st))"
  by (cases st) (auto simp: get_or_set_def invocations_def split: sum.splits prod.splits if_splits)

lemma map_of_replaced: "map_of (filter (\<lambda>x. fst x \<noteq> k) c @ [(k, v)]) k = Some v"
  by (induction c) auto

lemma set_memory_stores:
  "\<not> redis_client cs \<Longrightarrow>
     \<exists>cs'. set' J now srv cs key val ttl = Inr (True, srv, cs')
        \<and> map_of (memory_cache cs') key = Some (val, now + 3600) \<and> \<not> redis_client cs'
        \<and> lru_cache cs' = lru_cache cs"
  by (simp add: set'_def set_body_def ttl_setitem_def Let_def map_of_replaced del: map_of_append)

lemma set_redis_stores:
  "redis_client cs \<Longrightarrow> reachable srv \<Longrightarrow> 0 < ttl \<Longrightarrow> dumps J val = Inr s \<Longrightarrow>
     set' J now srv cs key val ttl
       = Inr (True, srv\<lparr>store := (key, s, Some (now + ttl)) # filter (\<lambda>x. fst x \<noteq> key) (store srv)\<rparr>, cs)"
  by (simp add: set'_def set_body_def redis_setex_def)

lemma memory_hit:
  "\<not> redis_client cs \<Longrightarrow> map_of (memory_cache cs) key = Some (v, e) \<Longrightarrow> now < e \<Longrightarrow>
     \<exists>cs'. get J now srv cs key dflt = Inr (v, cs')"
  by (simp add: get_def get_body_def memory_get_def ttl_contains_def ttl_getitem_def)

lemma cached_value_served:
  assumes "key = generate_key md5 prefix args kwargs"
    and "\<not> redis_client cs" "map_of (memory_cache cs) key = Some (v, e)" "now < e" "v \<noteq> PyNone"
  shows "fst (cache_result J md5 prefix ttl g args kwargs now now' (srv, cs, n)) = Inr v
       \<and> invocations (cache_result J md5 prefix ttl g args kwargs now now' (srv, cs, n)) = n"
  using memory_hit[OF assms(2) assms(3) assms(4), of J srv PyNone] assms(1) assms(5)
  by (auto simp: cache_result_def invocations_def Let_def)

lemma get_or_set_value_served:
  assumes "\<not> redis_client cs" "map_of (memory_cache cs) key = Some (v, e)" "now < e" "v \<noteq> PyNone"
  shows "fst (get_or_set J key g ttl now now' (srv, cs, n)) = Inr v
       \<and> invocations (get_or_set J key g ttl now now' (srv, cs, n)) = n"
  using memory_hit[OF assms(1) assms(2) assms(3), of J srv PyNone] assms(4)
  by (auto simp: get_or_set_def invocations_def)

text \<open>
  Claim C9. A result equal to \<open>None\<close> is never served from the cache. Let the wrapped
  function return \<open>None\<close> at every invocation, and let the key hold nothing but stored
  \<open>None\<close>s (or be absent) to begin with. Then every call of the \<open>cache_result\<close> wrapper,
  and every \<open>get_or_set\<close>, at any clock readings \<open>ts\<close>, returns \<open>None\<close> and invokes the
  function again: after \<open>length ts\<close> calls the function has run \<open>length ts\<close> more times.
  This happens even though each call writes the \<open>None\<close> result: to the in-process store
  when no Redis client is held, to Redis (as \<open>null\<close>) when the server is reachable and the
  ttl positive. For any wrapped function whatever, a call that returns \<open>None\<close> has invoked
  the function; whereas a value other than \<open>None\<close> that the in-process store holds
  live under the key is returned by both without invoking the function.
\<close>

theorem none_results_never_served_from_cache:
  assumes "\<forall>n. func n = Inr PyNone"
    and "dumps J PyNone = Inr ''null''" and "loads J ''null'' = Inr PyNone"
    and "cache_key = generate_key md5 prefix args kwargs"
    and "holds_only_none cache_key srv cs"
  shows "fst (call_repeatedly (cache_result J md5 prefix ttl func args kwargs) ts (srv, cs, calls))
           = replicate (length ts) (Inr PyNone)
       \<and> invocations (call_repeatedly (cache_result J md5 prefix ttl func args kwargs) ts (srv, cs, calls))
           = calls + length ts
       \<and> fst (call_repeatedly (get_or_set J cache_key func ttl) ts (srv, cs, calls))
           = replicate (length ts) (Inr PyNone)
       \<and> invocations (call_repeatedly (get_or_set J cache_key func ttl) ts (srv, cs, calls))
           = calls + length ts
       \<and> (\<not> redis_client cs \<longrightarrow>
            map_of (memory_cache (service_of (cache_result J md5 prefix ttl func args kwargs now now' (srv, cs, calls))))
              cache_key = Some (PyNone, now' + 3600))
       \<and> (redis_client cs \<and> reachable srv \<and> 0 < ttl \<longrightarrow>
            map_of (store (server_of (cache_result J md5 prefix ttl func args kwargs now now' (srv, cs, calls))))
              cache_key = Some (''null'', Some (now' + ttl)))
       \<and> (\<not> redis_client cs \<longrightarrow>
            map_of (memory_cache (service_of (get_or_set J cache_key func ttl now now' (srv, cs, calls))))
              cache_key = Some (PyNone, now' + 3600))
       \<and> (redis_client cs \<and> reachable srv \<and> 0 < ttl \<longrightarrow>
            map_of (store (server_of (get_or_set J cache_key func ttl now now' (srv, cs, calls))))
              cache_key = Some (''null'', Some (now' + ttl)))
       \<and> (\<forall>g st. fst (cache_result J md5 prefix ttl g args kwargs now now' st) = Inr PyNone \<longrightarrow>
            invocations (cache_result J md5 prefix ttl g args kwargs now now' st) = Suc (snd (snd st)))
       \<and> (\<forall>g st. fst (get_or_set J cache_key g ttl now now' st) = Inr PyNone \<longrightarrow>
            invocations (get_or_set J cache_key g ttl now now' st) = Suc (snd (snd st)))
       \<and> (\<forall>g srv2 cs2 n v e.
            \<not> redis_client cs2 \<and> map_of (memory_cache cs2) cache_key = Some (v, e) \<and> now < e \<and> v \<noteq> PyNone \<longrightarrow>
              fst (cache_result J md5 prefix ttl g args kwargs now now' (srv2, cs2, n)) = Inr v
            \<and> invocations (cache_result J md5 prefix ttl g args kwargs now now' (srv2, cs2, n)) = n
            \<and> fst (get_or_set J cache_key g ttl now now' (srv2, cs2, n)) = Inr v
            \<and> invocations (get_or_set J cache_key g ttl now now' (srv2, cs2, n)) = n)"
proof -
  have f: "func n = Inr PyNone" for n using assms(1) by simp
  have a: "fst (call_repeatedly (cache_result J md5 prefix ttl func args kwargs) ts (srv, cs, calls))
           = replicate (length ts) (Inr PyNone)
       \<and> invocations (call_repeatedly (cache_result J md5 prefix ttl func args kwargs) ts (srv, cs, calls))
           = calls + length ts"
  proof (rule call_repeatedly_none[of cache_key])
    fix now now' srv cs calls
    assume "holds_only_none cache_key srv cs"
    then show "\<exists>srv' cs'. cache_result J md5 prefix ttl func args kwargs now now' (srv, cs, calls)
            = (Inr PyNone, srv', cs', Suc calls) \<and> holds_only_none cache_key srv' cs'"
      using cache_result_none_step[of md5 prefix args kwargs srv cs func calls J ttl now now']
        f assms(2,3,4) by simp
  qed (rule assms(5))
  have b: "fst (call_repeatedly (get_or_set J cache_key func ttl) ts (srv, cs, calls))
           = replicate (length ts) (Inr PyNone)
       \<and> invocations (call_repeatedly (get_or_set J cache_key func ttl) ts (srv, cs, calls))
           = calls + length ts"
  proof (rule call_repeatedly_none[of cache_key])
    fix now now' srv cs calls
    assume "holds_only_none cache_key srv cs"
    then show "\<exists>srv' cs'. get_or_set J cache_key func ttl now now' (srv, cs, calls)
            = (Inr PyNone, srv', cs', Suc calls) \<and> holds_only_none cache_key srv' cs'"
      using get_or_set_none_step[of cache_key srv cs func calls J ttl now now']
        f assms(2,3) by simp
  qed (rule assms(5))
  from get_none[OF assms(5,3), of now] obtain cs1 where
    g: "get J now srv cs cache_key PyNone = Inr (PyNone, cs1)" "redis_client cs1 = redis_client cs" by blast
  have c: "\<not> redis_client cs \<longrightarrow>
            map_of (memory_cache (service_of (cache_result J md5 prefix ttl func args kwargs now now' (srv, cs, calls))))
              cache_key = Some (PyNone, now' + 3600)"
  proof
    assume "\<not> redis_client cs"
    then have "\<not> redis_client cs1" using g(2) by simp
    from set_memory_stores[OF this, of J now' srv cache_key PyNone ttl] show
      "map_of (memory_cache (service_of (cache_result J md5 prefix ttl func args kwargs now now' (srv, cs, calls))))
              cache_key = Some (PyNone, now' + 3600)"
      using g(1) f assms(4) by (auto simp: cache_result_def service_of_def Let_def)
  qed
  have d: "redis_client cs \<and> reachable srv \<and> 0 < ttl \<longrightarrow>
            map_of (store (server_of (cache_result J md5 prefix ttl func args kwargs now now' (srv, cs, calls))))
              cache_key = Some (''null'', Some (now' + ttl))"
  proof
    assume h: "redis_client cs \<and> reachable srv \<and> 0 < ttl"
    then have "redis_client cs1" using g(2) by simp
    from set_redis_stores[OF this _ _ assms(2), of srv ttl now' cache_key] h show
      "map_of (store (server_of (cache_result J md5 prefix ttl func args kwargs now now' (srv, cs, calls))))
              cache_key = Some (''null'', Some (now' + ttl))"
      using g(1) f assms(4) by (auto simp: cache_result_def server_of_def Let_def)
  qed
  have c2: "\<not> redis_client cs \<longrightarrow>
            map_of (memory_cache (service_of (get_or_set J cache_key func ttl now now' (srv, cs, calls))))
              cache_key = Some (PyNone, now' + 3600)"
  proof
    assume "\<not> redis_client cs"
    then have "\<not> redis_client cs1" using g(2) by simp
    from set_memory_stores[OF this, of J now' srv cache_key PyNone ttl] show
      "map_of (memory_cache (service_of (get_or_set J cache_key func ttl now now' (srv, cs, calls))))
              cache_key = Some (PyNone, now' + 3600)"
      using g(1) f by (auto simp: get_or_set_def service_of_def)
  qed
  have d2: "redis_client cs \<and> reachable srv \<and> 0 < ttl \<longrightarrow>
            map_of (store (server_of (get_or_set J cache_key func ttl now now' (srv, cs, calls))))
              cache_key = Some (''null'', Some (now' + ttl))"
  proof
    assume h: "redis_client cs \<and> reachable srv \<and> 0 < ttl"
    then have "redis_client cs1" using g(2) by simp
    from set_redis_stores[OF this _ _ assms(2), of srv ttl now' cache_key] h show
      "map_of (store (server_of (get_or_set J cache_key func ttl now now' (srv, cs, calls))))
              cache_key = Some (''null'', Some (now' + ttl))"
      using g(1) f by (auto simp: get_or_set_def server_of_def)
  qed
  have e: "\<forall>g srv2 cs2 n v e.
            \<not> redis_client cs2 \<and> map_of (memory_cache cs2) cache_key = Some (v, e) \<and> now < e \<and> v \<noteq> PyNone \<longrightarrow>
              fst (cache_result J md5 prefix ttl g args kwargs now now' (srv2, cs2, n)) = Inr v
            \<and> invocations (cache_result J md5 prefix ttl g args kwargs now now' (srv2, cs2, n)) = n
            \<and> fst (get_or_set J cache_key g ttl now now' (srv2, cs2, n)) = Inr v
            \<and> invocations (get_or_set J cache_key g ttl now now' (srv2, cs2, n)) = n"
  proof (intro allI impI)
    fix g :: "nat \<Rightarrow> exn + pyval" and srv2 :: redis_server and cs2 :: cache_service
      and n :: nat and v :: pyval and e :: int
    assume h: "\<not> redis_client cs2 \<and> map_of (memory_cache cs2) cache_key = Some (v, e) \<and> now < e \<and> v \<noteq> PyNone"
    from h have h1: "\<not> redis_client cs2" and h2: "map_of (memory_cache cs2) cache_key = Some (v, e)"
      and h3: "now < e" and h4: "v \<noteq> PyNone" by simp_all
    from cached_value_served[OF assms(4) h1 h2 h3 h4, of J ttl g now' srv2 n]
         get_or_set_value_served[OF h1 h2 h3 h4, of J g ttl now' srv2 n]
    show "fst (cache_result J md5 prefix ttl g args kwargs now now' (srv2, cs2, n)) = Inr v
            \<and> invocations (cache_result J md5 prefix ttl g args kwargs now now' (srv2, cs2, n)) = n
            \<and> fst (get_or_set J cache_key g ttl now now' (srv2, cs2, n)) = Inr v
            \<and> invocations (get_or_set J cache_key g ttl now now' (srv2, cs2, n)) = n"
      by simp
  qed
  have i1: "\<forall>g st. fst (cache_result J md5 prefix ttl g args kwargs now now' st) = Inr PyNone \<longrightarrow>
            invocations (cache_result J md5 prefix ttl g args kwargs now now' st) = Suc (snd (snd st))"
    using cache_result_none_invoked by blast
  have i2: "\<forall>g st. fst (get_or_set J cache_key g ttl now now' st) = Inr PyNone \<longrightarrow>
            invocations (get_or_set J cache_key g ttl now now' st) = Suc (snd (snd st))"
    using get_or_set_none_invoked by blast
  show ?thesis using a b c d c2 d2 i1 i2 e by (intro conjI) blast+
qed


lemmas example_simps = example_json_def example_dumps_def example_loads_def server_up_def server_down_def

theorem none_results_never_served_from_cache_witness:
  "invocations (call_repeatedly (cache_result example_json (\<lambda>s. s) ''seo_content'' 7200 (\<lambda>n. Inr PyNone) ''(f, 1)'' ''[]'')
       [(0, 1), (2, 3), (4000, 4001)] (server_down, init server_down, 0)) = 3
   \<and> fst (call_repeatedly (cache_result example_json (\<lambda>s. s) ''seo_content'' 7200 (\<lambda>n. Inr PyNone) ''(f, 1)'' ''[]'')
       [(0, 1), (2, 3), (4000, 4001)] (server_down, init server_down, 0)) = [Inr PyNone, Inr PyNone, Inr PyNone]
   \<and> invocations (call_repeatedly (get_or_set example_json ''seo_content:(f, 1):[]'' (\<lambda>n. Inr PyNone) 7200)
       [(0, 1), (2, 3), (4000, 4001)] (server_up, init server_up, 0)) = 3
   \<and> map_of (memory_cache (service_of (cache_result example_json (\<lambda>s. s) ''seo_content'' 7200
         (\<lambda>n. Inr PyNone) ''(f, 1)'' ''[]'' 0 1 (server_down, init server_down, 0))))
       ''seo_content:(f, 1):[]'' = Some (PyNone, 3601)
   \<and> map_of (store (server_of (cache_result example_json (\<lambda>s. s) ''seo_content'' 7200
         (\<lambda>n. Inr PyNone) ''(f, 1)'' ''[]'' 0 1 (server_up, init server_up, 0))))
       ''seo_content:(f, 1):[]'' = Some (''null'', Some 7201)
   \<and> map_of (memory_cache (service_of (get_or_set example_json ''seo_content:(f, 1):[]''
         (\<lambda>n. Inr PyNone) 7200 0 1 (server_down, init server_down, 0))))
       ''seo_content:(f, 1):[]'' = Some (PyNone, 3601)
   \<and> map_of (store (server_of (get_or_set example_json ''seo_content:(f, 1):[]''
         (\<lambda>n. Inr PyNone) 7200 0 1 (server_up, init server_up, 0))))
       ''seo_content:(f, 1):[]'' = Some (''null'', Some 7201)
   \<and> get_or_set example_json ''seo_content:(f, 1):[]'' (\<lambda>n. Inr PyNone) 7200 0 1
         (server_down,
          \<lparr>redis_client = False, memory_cache = [(''seo_content:(f, 1):[]'', PyStr ''kept'', 50)], lru_cache = []\<rparr>,
          4)
       = (Inr (PyStr ''kept''), server_down,
          \<lparr>redis_client = False, memory_cache = [(''seo_content:(f, 1):[]'', PyStr ''kept'', 50)], lru_cache = []\<rparr>,
          4)"
  using none_results_never_served_from_cache [of "\<lambda>n. Inr PyNone" example_json
      "''seo_content:(f, 1):[]''" "\<lambda>s. s" "''seo_content''" "''(f, 1)''" "''[]''" server_down "init server_down"
      7200 "[(0, 1), (2, 3), (4000, 4001)]" 0 0 1]
    none_results_never_served_from_cache [of "\<lambda>n. Inr PyNone" example_json
      "''seo_content:(f, 1):[]''" "\<lambda>s. s" "''seo_content''" "''(f, 1)''" "''[]''" server_up "init server_up"
      7200 "[(0, 1), (2, 3), (4000, 4001)]" 0 0 1]
  by (simp add: example_simps holds_only_none_def init_def generate_key_def redis_ping_def
      get_or_set_def get_def get_body_def memory_get_def ttl_contains_def ttl_getitem_def)

text \<open>
  Claim C10. When the cache holds a Redis client and the server answers, \<open>clear\<close> (and
  the clear-all route built on it) empties the whole Redis database, whatever keys it
  held and whoever wrote them, and empties both in-process stores.
\<close>

theorem clear_flushes_whole_database:
  "redis_client cs \<and> reachable srv \<longrightarrow>
     clear srv cs = Inr (True, srv\<lparr>store := []\<rparr>, cs\<lparr>memory_cache := [], lru_cache := []\<rparr>)
     \<and> cache_clear_post srv cs
         = (PyDict [(''success'', PyBool True), (''message'', PyStr ''Cache cleared successfully'')],
            srv\<lparr>store := []\<rparr>, cs\<lparr>memory_cache := [], lru_cache := []\<rparr>)"
  by (simp add: clear_def cache_clear_post_def redis_flushdb_def)

theorem clear_flushes_whole_database_witness:
  "clear server_up (init server_up)
     = Inr (True, \<lparr>reachable = True, store = []\<rparr>, \<lparr>redis_client = True, memory_cache = [], lru_cache = []\<rparr>)
   \<and> map_of (store server_up) ''celery'' = Some (''queued-job'', None)"
  using clear_flushes_whole_database [of "init server_up" server_up]
  by (simp add: example_simps init_def redis_ping_def)

text \<open>
  Claim C4, as amended. \<open>set\<close> writes to exactly one tier. With a Redis client it writes
  the serialised value to Redis under the given ttl and leaves the in-process store as it
  was; when that write fails (server unreachable, ttl not positive, value not
  serialisable) it writes nowhere and returns \<open>False\<close>. Without a Redis client it writes
  to the in-process store, where the entry lives for 3600 seconds.
\<close>

theorem set_writes_one_tier:
  "(redis_client cs \<and> reachable srv \<and> 0 < ttl \<and> dumps J val = Inr s \<longrightarrow>
      set' J now srv cs key val ttl
        = Inr (True, srv\<lparr>store := (key, s, Some (now + ttl)) # filter (\<lambda>x. fst x \<noteq> key) (store srv)\<rparr>, cs))
   \<and> (redis_client cs \<and> (\<not> reachable srv \<or> ttl \<le> 0 \<or> isl (dumps J val)) \<longrightarrow>
      set' J now srv cs key val ttl = Inr (False, srv, cs))
   \<and> (\<not> redis_client cs \<longrightarrow>
      set' J now srv cs key val ttl
        = Inr (True, srv, cs\<lparr>memory_cache := ttl_setitem 1000 3600 now (memory_cache cs) key val\<rparr>)
      \<and> map_of (ttl_setitem 1000 3600 now (memory_cache cs) key val) key = Some (val, now + 3600))"
  by (auto simp: set'_def set_body_def redis_setex_def ttl_setitem_def Let_def map_of_replaced isl_def
      simp del: map_of_append split: sum.splits)

theorem set_writes_one_tier_witness:
  "set' example_json 5 server_down (init server_down) ''k'' (PyStr ''v'') 60
     = Inr (True, server_down, \<lparr>redis_client = False, memory_cache = [(''k'', PyStr ''v'', 3605)], lru_cache = []\<rparr>)
   \<and> set' example_json 5 (server_up\<lparr>reachable := False\<rparr>) (init server_up) ''k'' (PyStr ''v'') 60
     = Inr (False, server_up\<lparr>reachable := False\<rparr>, init server_up)
   \<and> set' example_json 5 (server_down\<lparr>reachable := True\<rparr>) (init server_up) ''k'' (PyStr ''v'') 60
     = Inr (True, \<lparr>reachable = True, store = [(''k'', [CHR 0x22, CHR ''v'', CHR 0x22], Some 65)]\<rparr>, init server_up)"
  using set_writes_one_tier [of "init server_down" server_down 60 example_json "PyStr ''v''" "''v''" 5 "''k''"]
    set_writes_one_tier [of "init server_up" "server_down\<lparr>reachable := True\<rparr>" 60 example_json "PyStr ''v''"
      "[CHR 0x22, CHR ''v'', CHR 0x22]" 5 "''k''"]
    set_writes_one_tier [of "init server_up" "server_up\<lparr>reachable := False\<rparr>" 60 example_json "PyStr ''v''" "''v''" 5 "''k''"]
  by (simp add: example_simps init_def redis_ping_def ttl_setitem_def ttl_expire_def)

text \<open>
  Claim C4 as stated fails: with Redis available the value goes to Redis only, and the
  in-process store stays empty.
\<close>

theorem set_skips_memory_counterexample:
  "set' example_json 0 server_up (init server_up) ''k'' (PyStr ''v'') 60
     = Inr (True,
            \<lparr>reachable = True, store = [(''k'', [CHR 0x22, CHR ''v'', CHR 0x22], Some 60), (''celery'', ''queued-job'', None)]\<rparr>,
            \<lparr>redis_client = True, memory_cache = [], lru_cache = []\<rparr>)"
  by (simp add: example_simps init_def redis_ping_def set'_def set_body_def redis_setex_def)


lemma set_then_get_memory:
  "\<not> redis_client cs \<Longrightarrow>
     set_then_get J now later srv cs key val ttl dflt = Inr (if later < now + 3600 then val else dflt)"
  by (simp add: set_then_get_def set'_def set_body_def get_def get_body_def memory_get_def
      ttl_contains_def ttl_getitem_def ttl_setitem_def Let_def map_of_replaced del: map_of_append)

lemma redis_get_after_setex:
  "reachable srv \<Longrightarrow>
     redis_get later (srv\<lparr>store := (key, s, Some (now + ttl)) # filter (\<lambda>x. fst x \<noteq> key) (store srv)\<rparr>) key
       = Inr (if later < now + ttl then Some s else None)"
  by (simp add: redis_get_def)

lemma set_then_get_redis:
  assumes "redis_client cs" "reachable srv" "0 < ttl" "dumps J val = Inr s" "s \<noteq> []" "loads J s = Inr val"
  shows "later < now + ttl \<Longrightarrow> set_then_get J now later srv cs key val ttl dflt = Inr val"
    and "now + ttl \<le> later \<Longrightarrow> \<not> ttl_contains later (memory_cache cs) key \<Longrightarrow>
           set_then_get J now later srv cs key val ttl dflt = Inr dflt"
  using assms
  by (simp_all add: set_then_get_def set_redis_stores get_def get_body_def redis_get_after_setex memory_get_def)

text \<open>
  Claim C3, as amended. Immediately after \<open>set(K, V, t)\<close>, \<open>get(K)\<close> returns \<open>V\<close>. How
  long it keeps doing so depends on the tier. Without a Redis client the entry lives in
  the in-process store for that store's fixed 3600 seconds, whatever \<open>t\<close> is. With a
  reachable Redis, a positive \<open>t\<close> and a value that survives the JSON round trip, \<open>get\<close>
  returns \<open>V\<close> until \<open>t\<close> has elapsed and the default from then on (the in-process store
  holding no live entry for \<open>K\<close>).
\<close>

theorem set_get_expiry_by_tier:
  "(\<not> redis_client cs \<longrightarrow>
      set_then_get J now later srv cs key val ttl dflt = Inr (if later < now + 3600 then val else dflt))
   \<and> (redis_client cs \<and> reachable srv \<and> 0 < ttl \<and> dumps J val = Inr s \<and> s \<noteq> [] \<and> loads J s = Inr val \<longrightarrow>
        (later < now + ttl \<longrightarrow> set_then_get J now later srv cs key val ttl dflt = Inr val)
      \<and> (now + ttl \<le> later \<and> \<not> ttl_contains later (memory_cache cs) key \<longrightarrow>
           set_then_get J now later srv cs key val ttl dflt = Inr dflt))"
proof (intro conjI impI)
  assume "\<not> redis_client cs"
  then show "set_then_get J now later srv cs key val ttl dflt = Inr (if later < now + 3600 then val else dflt)"
    by (rule set_then_get_memory)
next
  assume h: "redis_client cs \<and> reachable srv \<and> 0 < ttl \<and> dumps J val = Inr s \<and> s \<noteq> [] \<and> loads J s = Inr val"
    and l: "later < now + ttl"
  from h l show "set_then_get J now later srv cs key val ttl dflt = Inr val"
    by (simp add: set_then_get_redis(1)[of cs srv ttl J val s later now key dflt])
next
  assume h: "redis_client cs \<and> reachable srv \<and> 0 < ttl \<and> dumps J val = Inr s \<and> s \<noteq> [] \<and> loads J s = Inr val"
    and l: "now + ttl \<le> later \<and> \<not> ttl_contains later (memory_cache cs) key"
  from h l show "set_then_get J now later srv cs key val ttl dflt = Inr dflt"
    by (simp add: set_then_get_redis(2)[of cs srv ttl J val s now later key dflt])
qed

theorem set_get_expiry_by_tier_witness:
  "set_then_get example_json 0 0 server_up (init server_up) ''k'' (PyStr ''v'') 10 PyNone = Inr (PyStr ''v'')
   \<and> set_then_get example_json 0 10 server_up (init server_up) ''k'' (PyStr ''v'') 10 PyNone = Inr PyNone
   \<and> set_then_get example_json 0 0 server_down (init server_down) ''k'' (PyStr ''v'') 10 PyNone = Inr (PyStr ''v'')
   \<and> set_then_get example_json 0 3600 server_down (init server_down) ''k'' (PyStr ''v'') 10 PyNone = Inr PyNone"
  using set_get_expiry_by_tier [of "init server_up" example_json 0 0 server_up "''k''" "PyStr ''v''" 10 PyNone
        "[CHR 0x22, CHR ''v'', CHR 0x22]"]
    set_get_expiry_by_tier [of "init server_up" example_json 0 10 server_up "''k''" "PyStr ''v''" 10 PyNone
        "[CHR 0x22, CHR ''v'', CHR 0x22]"]
    set_get_expiry_by_tier [of "init server_down" example_json 0 0 server_down "''k''" "PyStr ''v''" 10 PyNone "[]"]
    set_get_expiry_by_tier [of "init server_down" example_json 0 3600 server_down "''k''" "PyStr ''v''" 10 PyNone "[]"]
  by (simp add: example_simps init_def redis_ping_def ttl_contains_def)

text \<open>
  Claim C3 as stated fails in the in-process tier: a value set with a ttl of 10 seconds
  is still returned 10 seconds later.
\<close>

theorem memory_entry_outlives_ttl_counterexample:
  "set_then_get example_json 0 10 server_down (init server_down) ''k'' (PyStr ''v'') 10 PyNone = Inr (PyStr ''v'')"
  by (simp add: set_then_get_def set'_def set_body_def get_def get_body_def memory_get_def
      ttl_contains_def ttl_getitem_def ttl_setitem_def ttl_expire_def example_simps init_def redis_ping_def)

lemma get_keeps_client: "get J now srv cs key dflt = Inr (v, cs') \<Longrightarrow> redis_client cs' = redis_client cs"
  by (auto simp: get_def get_body_def memory_get_def ttl_getitem_def
      split: sum.splits option.splits if_splits prod.splits)

lemma set_keeps_client: "set' J now srv cs key val ttl = Inr (ok, srv', cs') \<Longrightarrow> redis_client cs' = redis_client cs"
  by (auto simp: set'_def set_body_def split: sum.splits if_splits)

text \<open>
  Claim C5, as amended. \<open>get\<close> and \<open>set\<close> always return, and neither changes whether
  the service holds a Redis client. A server that is unreachable when the service is
  constructed leaves it without a client, and from then on \<open>get\<close> returns what \<open>set\<close>
  wrote to the in-process store (for that store's 3600 seconds). A server that fails
  while the service holds a client makes \<open>get\<close> return the default and \<open>set\<close> return
  \<open>False\<close>, both leaving the service as it was.
\<close>

theorem cache_failures_absorbed:
  "(\<exists>v cs'. get J now srv cs key dflt = Inr (v, cs') \<and> redis_client cs' = redis_client cs)
   \<and> (\<exists>ok srv' cs'. set' J now srv cs key val ttl = Inr (ok, srv', cs') \<and> redis_client cs' = redis_client cs)
   \<and> (\<not> reachable srv \<longrightarrow> \<not> redis_client (init srv))
   \<and> (\<not> redis_client cs \<longrightarrow>
        set_then_get J now later srv cs key val ttl dflt = Inr (if later < now + 3600 then val else dflt))
   \<and> (redis_client cs \<and> \<not> reachable srv \<longrightarrow>
        get J now srv cs key dflt = Inr (dflt, cs) \<and> set' J now srv cs key val ttl = Inr (False, srv, cs))"
proof -
  have a: "\<exists>v cs'. get J now srv cs key dflt = Inr (v, cs') \<and> redis_client cs' = redis_client cs"
    using get_returns[of J now srv cs key dflt] get_keeps_client by blast
  have b: "\<exists>ok srv' cs'. set' J now srv cs key val ttl = Inr (ok, srv', cs') \<and> redis_client cs' = redis_client cs"
    using set_returns[of J now srv cs key val ttl] set_keeps_client by blast
  have c: "\<not> reachable srv \<longrightarrow> \<not> redis_client (init srv)"
    by (simp add: init_def redis_ping_def)
  have d: "redis_client cs \<and> \<not> reachable srv \<longrightarrow>
        get J now srv cs key dflt = Inr (dflt, cs) \<and> set' J now srv cs key val ttl = Inr (False, srv, cs)"
    by (auto simp: get_def get_body_def redis_get_def set'_def set_body_def redis_setex_def split: sum.splits)
  show ?thesis using a b c d set_then_get_memory by blast
qed

theorem cache_failures_absorbed_witness:
  "set_then_get example_json 0 1 server_down (init server_down) ''k'' (PyStr ''v'') 60 PyNone = Inr (PyStr ''v'')
   \<and> redis_client (init server_down) = False
   \<and> get example_json 0 (server_up\<lparr>reachable := False\<rparr>) (init server_up) ''k'' (PyStr ''d'') = Inr (PyStr ''d'', init server_up)
   \<and> set' example_json 0 (server_up\<lparr>reachable := False\<rparr>) (init server_up) ''k'' (PyStr ''v'') 60
        = Inr (False, server_up\<lparr>reachable := False\<rparr>, init server_up)"
  using cache_failures_absorbed [of example_json 0 server_down "init server_down" "''k''" PyNone "PyStr ''v''" 60 1]
    cache_failures_absorbed [of example_json 0 "server_up\<lparr>reachable := False\<rparr>" "init server_up" "''k''" "PyStr ''d''" "PyStr ''v''" 60 1]
  by (simp add: example_simps init_def redis_ping_def)

text \<open>
  Claim C5 as stated fails: after the server has failed under a connected service, the
  service still holds its client, a later \<open>set\<close> writes nothing in-process and a later
  \<open>get\<close> returns the default, not the value.
\<close>

theorem no_downgrade_after_failure_counterexample:
  "get example_json 0 (server_up\<lparr>reachable := False\<rparr>) (init server_up) ''k'' PyNone
      = Inr (PyNone, \<lparr>redis_client = True, memory_cache = [], lru_cache = []\<rparr>)
   \<and> set' example_json 1 (server_up\<lparr>reachable := False\<rparr>) \<lparr>redis_client = True, memory_cache = [], lru_cache = []\<rparr>
        ''k'' (PyStr ''v'') 60
      = Inr (False, server_up\<lparr>reachable := False\<rparr>, \<lparr>redis_client = True, memory_cache = [], lru_cache = []\<rparr>)
   \<and> get example_json 2 (server_up\<lparr>reachable := False\<rparr>) \<lparr>redis_client = True, memory_cache = [], lru_cache = []\<rparr>
        ''k'' PyNone
      = Inr (PyNone, \<lparr>redis_client = True, memory_cache = [], lru_cache = []\<rparr>)"
  by (simp add: get_def get_body_def redis_get_def set'_def set_body_def redis_setex_def
      example_simps init_def redis_ping_def)

section \<open>Properties of the generation client\<close>


lemma retry_call_returns:
  "f st = (Inr r, st1) \<Longrightarrow> retry_call m f a st = (Inr r, st1)"
  by (subst retry_call.simps) simp

lemma generate_ad_copy_once:
  "generate_ad_copy m J api st =
     (Inr (case api (api_calls st) of Inl e \<Rightarrow> PyNone | Inr t \<Rightarrow> parse_ad_copy_response J (strip t)),
      st\<lparr>api_calls := Suc (api_calls st)\<rparr>)"
  unfolding generate_ad_copy_def
  by (rule retry_call_returns)
     (simp add: generate_ad_copy_body_def generate_ad_copy_try_def Let_def split: sum.splits)

lemma generate_seo_content_once:
  "generate_seo_content m J api content_type st =
     (Inr (case api (api_calls st) of Inl e \<Rightarrow> PyNone
           | Inr t \<Rightarrow> parse_seo_response J (strip t) content_type),
      st\<lparr>api_calls := Suc (api_calls st)\<rparr>)"
  unfolding generate_seo_content_def
  by (rule retry_call_returns)
     (simp add: generate_seo_content_body_def generate_seo_content_try_def Let_def split: sum.splits)

lemma retry_call_three_attempts:
  "retry_call 3 (always_raising e) 1 \<lparr>api_calls = 0, slept = []\<rparr>
     = (Inl (Exn ''RetryError'' (msg e)), \<lparr>api_calls = 3, slept = [2, 2]\<rparr>)"
  by (simp add: always_raising_def wait_exponential_def)

text \<open>
  Claim C1, evaluated on the code. With \<open>MAX_RETRIES = 3\<close> and an external call that
  always fails transiently, \<open>generate_ad_copy\<close> and \<open>generate_seo_content\<close> make one
  request, sleep no back-off delay and return \<open>None\<close>: the handler inside the decorated
  function turns the error into a return value, so the retry wrapper never sees a failure.
  When the external call fails once and would then succeed, the call still makes one
  request and returns \<open>None\<close>; the success is only reached by a second, separate call.
  (The wrapper itself, around a function that lets its errors out, makes the three
  attempts with delays 2 and 2: \<open>retry_call_three_attempts\<close>.)
\<close>

theorem handler_defeats_retry:
  "generate_ad_copy 3 example_json rate_limited \<lparr>api_calls = 0, slept = []\<rparr>
     = (Inr PyNone, \<lparr>api_calls = 1, slept = []\<rparr>)
   \<and> generate_seo_content 3 example_json rate_limited ''both'' \<lparr>api_calls = 0, slept = []\<rparr>
     = (Inr PyNone, \<lparr>api_calls = 1, slept = []\<rparr>)
   \<and> generate_ad_copy 3 example_json fails_once \<lparr>api_calls = 0, slept = []\<rparr>
     = (Inr PyNone, \<lparr>api_calls = 1, slept = []\<rparr>)
   \<and> generate_ad_copy 3 example_json fails_once \<lparr>api_calls = 1, slept = []\<rparr>
     = (Inr (PyDict []), \<lparr>api_calls = 2, slept = []\<rparr>)"
  by (simp add: generate_ad_copy_once generate_seo_content_once rate_limited_def fails_once_def
      parse_ad_copy_response_def extract_json_def strip_def isspace_def find_def rfind_def slice_def
      example_simps Let_def)


lemma no_payload_extract:
  "no_payload J content \<Longrightarrow> extract_json J content = Inr None \<or> isl (extract_json J content)"
  by (auto simp: no_payload_def extract_json_def Let_def isl_def split: sum.splits)

lemma no_payload_ad: "no_payload J content \<Longrightarrow> parse_ad_copy_response J content = PyNone"
  using no_payload_extract[of J content]
  by (auto simp: parse_ad_copy_response_def isl_def)

lemma no_payload_seo: "no_payload J content \<Longrightarrow> parse_seo_response J content content_type = PyNone"
  using no_payload_extract[of J content]
  by (auto simp: parse_seo_response_def isl_def)

text \<open>
  Claim C6, as amended. A generation call whose response text holds no parseable JSON
  object returns \<open>None\<close> after its single request: nothing is raised and nothing is
  retried. The same holds for an SEO call that asked for titles only, or descriptions
  only, when the parsed object lacks that field.
\<close>

theorem unparseable_response_returns_none:
  "(api (api_calls st) = Inr text \<and> no_payload J (strip text) \<longrightarrow>
     generate_ad_copy MAX_RETRIES J api st = (Inr PyNone, st\<lparr>api_calls := Suc (api_calls st)\<rparr>)
     \<and> generate_seo_content MAX_RETRIES J api content_type st
         = (Inr PyNone, st\<lparr>api_calls := Suc (api_calls st)\<rparr>))
   \<and> (api (api_calls st) = Inr text \<and> extract_json J (strip text) = Inr (Some (PyDict d))
        \<and> (content_type = ''titles'' \<or> content_type = ''descriptions'') \<and> \<not> dict_has d content_type \<longrightarrow>
     generate_seo_content MAX_RETRIES J api content_type st
         = (Inr PyNone, st\<lparr>api_calls := Suc (api_calls st)\<rparr>))"
proof (rule conjI; rule impI)
  assume "api (api_calls st) = Inr text \<and> no_payload J (strip text)"
  then show "generate_ad_copy MAX_RETRIES J api st = (Inr PyNone, st\<lparr>api_calls := Suc (api_calls st)\<rparr>)
     \<and> generate_seo_content MAX_RETRIES J api content_type st
         = (Inr PyNone, st\<lparr>api_calls := Suc (api_calls st)\<rparr>)"
    by (simp add: generate_ad_copy_once generate_seo_content_once no_payload_ad no_payload_seo)
next
  assume h: "api (api_calls st) = Inr text \<and> extract_json J (strip text) = Inr (Some (PyDict d))
        \<and> (content_type = ''titles'' \<or> content_type = ''descriptions'') \<and> \<not> dict_has d content_type"
  then have "parse_seo_response J (strip text) content_type = PyNone"
    by (auto simp: parse_seo_response_def)
  with h show "generate_seo_content MAX_RETRIES J api content_type st
         = (Inr PyNone, st\<lparr>api_calls := Suc (api_calls st)\<rparr>)"
    by (simp add: generate_seo_content_once)
qed

theorem unparseable_response_returns_none_witness:
  "generate_ad_copy 3 example_json plain_text \<lparr>api_calls = 4, slept = []\<rparr>
     = (Inr PyNone, \<lparr>api_calls = 5, slept = []\<rparr>)
   \<and> generate_seo_content 3 example_json plain_text ''titles'' \<lparr>api_calls = 4, slept = []\<rparr>
     = (Inr PyNone, \<lparr>api_calls = 5, slept = []\<rparr>)
   \<and> generate_seo_content 3 example_json fails_once ''titles'' \<lparr>api_calls = 1, slept = []\<rparr>
     = (Inr PyNone, \<lparr>api_calls = 2, slept = []\<rparr>)"
  using unparseable_response_returns_none [of plain_text "\<lparr>api_calls = 4, slept = []\<rparr>"
      "''Sorry, I cannot help with that.''" example_json 3 "''titles''" "[]"]
    unparseable_response_returns_none [of fails_once "\<lparr>api_calls = 1, slept = []\<rparr>"
      "''Here it is: {}''" example_json 3 "''titles''" "[]"]
  by (simp add: plain_text_def fails_once_def no_payload_def strip_def isspace_def extract_json_def
      find_def rfind_def slice_def dict_has_def example_simps Let_def)

text \<open>
  Claim C6 as stated fails: on a response without any JSON the calls return \<open>None\<close>
  normally after one request; no error is raised, of any class.
\<close>

theorem parse_failure_is_not_an_error_counterexample:
  "generate_ad_copy 3 example_json plain_text \<lparr>api_calls = 0, slept = []\<rparr>
     = (Inr PyNone, \<lparr>api_calls = 1, slept = []\<rparr>)
   \<and> generate_seo_content 3 example_json plain_text ''both'' \<lparr>api_calls = 0, slept = []\<rparr>
     = (Inr PyNone, \<lparr>api_calls = 1, slept = []\<rparr>)"
  by (simp add: generate_ad_copy_once generate_seo_content_once plain_text_def
      parse_ad_copy_response_def parse_seo_response_def extract_json_def strip_def isspace_def)

section \<open>Properties of the bulk processor\<close>

text \<open>
  A row whose index label is an integer has its number logged without error, so the loop
  body of \<open>process_bulk_seo_csv\<close> records the outcome of the row's work.
\<close>

lemma log_row_number_int: "log_row_number logger (PyInt i) = Inr ()"
  by (simp add: log_row_number_def)

lemma seo_row_int:
  "seo_row C logger dbn (PyInt i) row w
     = (Inr (fst (seo_outcome C dbn row w)), snd (seo_outcome C dbn row w))"
  by (simp add: seo_row_def seo_row_try_def seo_outcome_def log_row_number_int
      split: prod.splits sum.splits)

lemma int_labelled_Cons:
  "int_labelled (x # rest) \<Longrightarrow> (\<exists>i. fst x = PyInt i) \<and> int_labelled rest"
  by (cases "fst x") (auto simp: int_labelled_def)

lemma bulk_loop_outcomes:
  "int_labelled df \<Longrightarrow>
     bulk_loop (seo_row C logger dbn) df results w
       = (Inr (results @ outcomes (seo_outcome C dbn) (map snd df) w),
          world_after (seo_outcome C dbn) (map snd df) w)"
proof (induction df arbitrary: results w)
  case Nil
  then show ?case by simp
next
  case (Cons x rest)
  from int_labelled_Cons[OF Cons.prems] obtain i where i: "fst x = PyInt i" and r: "int_labelled rest"
    by blast
  show ?case by (simp add: i seo_row_int Cons.IH[OF r])
qed

lemma task_loop_outcomes:
  "int_labelled df \<Longrightarrow>
     task_loop body n df results emitted w
       = (Inr (results @ outcomes body (map snd df) w),
          emitted @ map (\<lambda>x. projr (row_progress (fst x) n)) df,
          world_after body (map snd df) w)"
proof (induction df arbitrary: results emitted w)
  case Nil
  then show ?case by simp
next
  case (Cons x rest)
  from int_labelled_Cons[OF Cons.prems] obtain i where i: "fst x = PyInt i" and r: "int_labelled rest"
    by blast
  show ?case by (simp add: i Cons.IH[OF r] split: prod.splits)
qed

lemma length_outcomes: "length (outcomes body rows w) = length rows"
  by (induction rows arbitrary: w) auto

lemma nth_outcomes:
  "i < length rows \<Longrightarrow>
     outcomes body rows w ! i = fst (body (rows ! i) (world_after body (take i rows) w))"
proof (induction rows arbitrary: w i)
  case Nil
  then show ?case by simp
next
  case (Cons row rest)
  then show ?case by (cases i) auto
qed

text \<open>The handlers of the two loop bodies, and the paths of a row that end in them.\<close>

lemma seo_outcome_handler:
  "fst (seo_row_work C dbn row w) = Inl e \<Longrightarrow>
     fst (seo_outcome C dbn row w) = error_result (dict_get row ''url'' (PyStr [])) (msg e)"
  by (cases "seo_row_work C dbn row w") (simp add: seo_outcome_def)

lemma task_row_handler:
  "fst (task_row_try C dbn row w) = Inl e \<Longrightarrow>
     fst (task_row C dbn row w) = error_result (dict_get row ''url'' (PyStr [])) (msg e)"
  by (cases "task_row_try C dbn row w") (simp add: task_row_def)

lemma seo_row_fetch_raises:
  "truthy (dict_get row ''url'' (PyStr [])) \<Longrightarrow> truthy (dict_get row ''keywords'' (PyStr [])) \<Longrightarrow>
   fst (fetch_url_content C (dict_get row ''url'' (PyStr [])) w) = Inl e \<Longrightarrow>
     fst (seo_row_work C dbn row w) = Inl e"
  by (cases "fetch_url_content C (dict_get row ''url'' (PyStr [])) w")
     (simp add: seo_row_work_def Let_def)

lemma seo_row_fetch_nothing:
  "truthy (dict_get row ''url'' (PyStr [])) \<Longrightarrow> truthy (dict_get row ''keywords'' (PyStr [])) \<Longrightarrow>
   fst (fetch_url_content C (dict_get row ''url'' (PyStr [])) w) = Inr html \<Longrightarrow> \<not> truthy html \<Longrightarrow>
     fst (seo_outcome C dbn row w)
       = error_result (dict_get row ''url'' (PyStr [])) ''Failed to fetch content from URL''"
  by (cases "fetch_url_content C (dict_get row ''url'' (PyStr [])) w")
     (simp add: seo_outcome_def seo_row_work_def Let_def)

lemma seo_row_generation_raises:
  "truthy (dict_get row ''url'' (PyStr [])) \<Longrightarrow> truthy (dict_get row ''keywords'' (PyStr [])) \<Longrightarrow>
   fetch_url_content C (dict_get row ''url'' (PyStr [])) w = (Inr html, w1) \<Longrightarrow> truthy html \<Longrightarrow>
   extract_text_from_html C html = Inr text \<Longrightarrow>
   fst (generate_seo_content_cached C text (dict_get row ''keywords'' (PyStr []))
          (dict_get row ''brand_name'' dbn) w1) = Inl e \<Longrightarrow>
     fst (seo_row_work C dbn row w) = Inl e"
  by (cases "generate_seo_content_cached C text (dict_get row ''keywords'' (PyStr []))
          (dict_get row ''brand_name'' dbn) w1")
     (simp add: seo_row_work_def Let_def)

lemma seo_row_generation_returns:
  "truthy (dict_get row ''url'' (PyStr [])) \<Longrightarrow> truthy (dict_get row ''keywords'' (PyStr [])) \<Longrightarrow>
   fetch_url_content C (dict_get row ''url'' (PyStr [])) w = (Inr html, w1) \<Longrightarrow> truthy html \<Longrightarrow>
   extract_text_from_html C html = Inr text \<Longrightarrow>
   fst (generate_seo_content_cached C text (dict_get row ''keywords'' (PyStr []))
          (dict_get row ''brand_name'' dbn) w1) = Inr (PyDict d) \<Longrightarrow>
     fst (seo_outcome C dbn row w)
       = dict_update [(''url'', dict_get row ''url'' (PyStr [])),
                      (''keywords'', dict_get row ''keywords'' (PyStr [])),
                      (''brand_name'', dict_get row ''brand_name'' dbn)] d"
  by (cases "generate_seo_content_cached C text (dict_get row ''keywords'' (PyStr []))
          (dict_get row ''brand_name'' dbn) w1")
     (simp add: seo_outcome_def seo_row_work_def dict_spread_def Let_def)

lemma task_row_subtask_raises:
  "truthy (dict_get row ''url'' (PyStr [])) \<Longrightarrow> truthy (dict_get row ''keywords'' (PyStr [])) \<Longrightarrow>
   fst (seo_task C (dict_get row ''url'' (PyStr [])) (dict_get row ''keywords'' (PyStr []))
          (dict_get row ''brand_name'' dbn) w) = Inl e \<Longrightarrow>
     fst (task_row_try C dbn row w) = Inl e"
  by (cases "seo_task C (dict_get row ''url'' (PyStr [])) (dict_get row ''keywords'' (PyStr []))
          (dict_get row ''brand_name'' dbn) w")
     (simp add: task_row_try_def Let_def)

text \<open>
  Claim C2, as amended. Let the parser read the input into a frame whose index labels
  are integers, as they are under the default index. Then \<open>process_bulk_seo_csv\<close>
  returns, and \<open>process_bulk_csv_async\<close> carries in its result, exactly one outcome per
  row of the frame, in the order of the rows: the outcome at position \<open>i\<close> is the outcome
  of row \<open>i\<close>, processed in the world its predecessors left behind, whatever happened to
  them. When the parser rejects the input, no outcome is produced:
  \<open>process_bulk_seo_csv\<close> raises the parser's error again and \<open>process_bulk_csv_async\<close>
  returns a failure carrying its message. For a single row: an error raised by the row's
  work is recorded as the failure outcome made of the row's URL and the message of the
  error; a fetch, a generation or a sub-task that raises is such an error; a fetch that
  returns nothing is recorded as the failure \<open>Failed to fetch content from URL\<close>; and a
  generation that returns a dictionary is recorded as a success carrying its items,
  whatever they are.
\<close>

theorem bulk_outcomes_per_row:
  "(read_csv C content = Inr df \<and> int_labelled df \<longrightarrow>
       fst (process_bulk_seo_csv C logger content dbn w)
         = Inr (outcomes (seo_outcome C dbn) (map snd df) w)
     \<and> task_results (process_bulk_csv_async C content dbn task_id w)
         = PyList (map PyDict (outcomes (task_row C dbn) (map snd df) w))
     \<and> length (outcomes (seo_outcome C dbn) (map snd df) w) = length df
     \<and> length (outcomes (task_row C dbn) (map snd df) w) = length df
     \<and> (\<forall>i < length df.
           outcomes (seo_outcome C dbn) (map snd df) w ! i
             = fst (seo_outcome C dbn (snd (df ! i))
                     (world_after (seo_outcome C dbn) (map snd (take i df)) w))
         \<and> outcomes (task_row C dbn) (map snd df) w ! i
             = fst (task_row C dbn (snd (df ! i))
                     (world_after (task_row C dbn) (map snd (take i df)) w))))
   \<and> (read_csv C content = Inl e0 \<longrightarrow>
         fst (process_bulk_seo_csv C logger content dbn w) = Inl e0
       \<and> task_result (process_bulk_csv_async C content dbn task_id w) = task_failure (msg e0) task_id)
   \<and> (\<forall>row v e. fst (seo_row_work C dbn row v) = Inl e \<longrightarrow>
         fst (seo_outcome C dbn row v) = error_result (dict_get row ''url'' (PyStr [])) (msg e))
   \<and> (\<forall>row v e. fst (task_row_try C dbn row v) = Inl e \<longrightarrow>
         fst (task_row C dbn row v) = error_result (dict_get row ''url'' (PyStr [])) (msg e))
   \<and> (\<forall>row v e. truthy (dict_get row ''url'' (PyStr [])) \<and> truthy (dict_get row ''keywords'' (PyStr []))
         \<and> fst (fetch_url_content C (dict_get row ''url'' (PyStr [])) v) = Inl e \<longrightarrow>
         fst (seo_row_work C dbn row v) = Inl e)
   \<and> (\<forall>row v html. truthy (dict_get row ''url'' (PyStr [])) \<and> truthy (dict_get row ''keywords'' (PyStr []))
         \<and> fst (fetch_url_content C (dict_get row ''url'' (PyStr [])) v) = Inr html \<and> \<not> truthy html \<longrightarrow>
         fst (seo_outcome C dbn row v)
           = error_result (dict_get row ''url'' (PyStr [])) ''Failed to fetch content from URL'')
   \<and> (\<forall>row v v1 html text e. truthy (dict_get row ''url'' (PyStr [])) \<and> truthy (dict_get row ''keywords'' (PyStr []))
         \<and> fetch_url_content C (dict_get row ''url'' (PyStr [])) v = (Inr html, v1) \<and> truthy html
         \<and> extract_text_from_html C html = Inr text
         \<and> fst (generate_seo_content_cached C text (dict_get row ''keywords'' (PyStr []))
                  (dict_get row ''brand_name'' dbn) v1) = Inl e \<longrightarrow>
         fst (seo_row_work C dbn row v) = Inl e)
   \<and> (\<forall>row v v1 html text d. truthy (dict_get row ''url'' (PyStr [])) \<and> truthy (dict_get row ''keywords'' (PyStr []))
         \<and> fetch_url_content C (dict_get row ''url'' (PyStr [])) v = (Inr html, v1) \<and> truthy html
         \<and> extract_text_from_html C html = Inr text
         \<and> fst (generate_seo_content_cached C text (dict_get row ''keywords'' (PyStr []))
                  (dict_get row ''brand_name'' dbn) v1) = Inr (PyDict d) \<longrightarrow>
         fst (seo_outcome C dbn row v)
           = dict_update [(''url'', dict_get row ''url'' (PyStr [])),
                          (''keywords'', dict_get row ''keywords'' (PyStr [])),
                          (''brand_name'', dict_get row ''brand_name'' dbn)] d)
   \<and> (\<forall>row v e. truthy (dict_get row ''url'' (PyStr [])) \<and> truthy (dict_get row ''keywords'' (PyStr []))
         \<and> fst (seo_task C (dict_get row ''url'' (PyStr [])) (dict_get row ''keywords'' (PyStr []))
                  (dict_get row ''brand_name'' dbn) v) = Inl e \<longrightarrow>
         fst (task_row_try C dbn row v) = Inl e)"
proof (intro impI conjI allI)
  assume "read_csv C content = Inr df \<and> int_labelled df"
  then show "fst (process_bulk_seo_csv C logger content dbn w)
         = Inr (outcomes (seo_outcome C dbn) (map snd df) w)"
    by (simp add: process_bulk_seo_csv_def bulk_loop_outcomes)
next
  assume "read_csv C content = Inr df \<and> int_labelled df"
  then show "task_results (process_bulk_csv_async C content dbn task_id w)
         = PyList (map PyDict (outcomes (task_row C dbn) (map snd df) w))"
    by (simp add: process_bulk_csv_async_def task_loop_outcomes task_results_def dict_get_def)
next
  assume "read_csv C content = Inl e0"
  then show "fst (process_bulk_seo_csv C logger content dbn w) = Inl e0"
    by (simp add: process_bulk_seo_csv_def)
next
  assume "read_csv C content = Inl e0"
  then show "task_result (process_bulk_csv_async C content dbn task_id w) = task_failure (msg e0) task_id"
    by (simp add: process_bulk_csv_async_def task_result_def)
next
  fix row v v1 html url_text d
  assume "truthy (dict_get row ''url'' (PyStr [])) \<and> truthy (dict_get row ''keywords'' (PyStr []))
         \<and> fetch_url_content C (dict_get row ''url'' (PyStr [])) v = (Inr html, v1) \<and> truthy html
         \<and> extract_text_from_html C html = Inr url_text
         \<and> fst (generate_seo_content_cached C url_text (dict_get row ''keywords'' (PyStr []))
                  (dict_get row ''brand_name'' dbn) v1) = Inr (PyDict d)"
  then show "fst (seo_outcome C dbn row v)
           = dict_update [(''url'', dict_get row ''url'' (PyStr [])),
                          (''keywords'', dict_get row ''keywords'' (PyStr [])),
                          (''brand_name'', dict_get row ''brand_name'' dbn)] d"
    using seo_row_generation_returns[of row C v html v1 url_text dbn d] by blast
qed (simp_all add: length_outcomes nth_outcomes take_map seo_outcome_handler task_row_handler
      seo_row_fetch_raises seo_row_fetch_nothing seo_row_generation_raises task_row_subtask_raises)

lemmas bulk_example_simps = example_collaborators_def example_frame_def shifted_frame_def
  lettered_frame_def example_content_def seo_outcome_def seo_row_work_def task_row_def
  task_row_try_def dict_get_def dict_spread_def dict_update_def dict_set_def error_result_def
  int_labelled_def Let_def

theorem bulk_outcomes_per_row_witness:
  "fst (process_bulk_seo_csv example_collaborators True ''csv'' (PyStr ''Brand'') 0)
     = Inr [[(''url'', PyStr ''A''), (''keywords'', PyStr ''ka''), (''brand_name'', PyStr ''Brand''),
             (''titles'', PyList [PyStr ''T1'', PyStr ''T2'']), (''descriptions'', PyList [PyStr ''D1''])],
            [(''url'', PyStr ''B''), (''error'', PyStr ''unreachable'')],
            [(''url'', PyStr ''C''), (''keywords'', PyStr ''kc''), (''brand_name'', PyStr ''Brand''),
             (''titles'', PyList [PyStr ''T1'', PyStr ''T2'']), (''descriptions'', PyList [PyStr ''D1''])]]
   \<and> task_results (process_bulk_csv_async example_collaborators ''csv'' (PyStr ''Brand'') ''t1'' 0)
     = PyList [PyDict [(''url'', PyStr ''A''), (''keywords'', PyStr ''ka''), (''brand_name'', PyStr ''Brand''),
             (''titles'', PyList [PyStr ''T1'', PyStr ''T2'']), (''descriptions'', PyList [PyStr ''D1''])],
            PyDict [(''url'', PyStr ''B''), (''error'', PyStr ''The operation timed out.'')],
            PyDict [(''url'', PyStr ''C''), (''keywords'', PyStr ''kc''), (''brand_name'', PyStr ''Brand''),
             (''titles'', PyList [PyStr ''T1'', PyStr ''T2'']), (''descriptions'', PyList [PyStr ''D1''])]]
   \<and> fst (process_bulk_seo_csv example_collaborators True ''not a csv'' (PyStr ''Brand'') 0)
     = Inl (Exn ''EmptyDataError'' ''No columns to parse from file'')
   \<and> task_result (process_bulk_csv_async example_collaborators ''not a csv'' (PyStr ''Brand'') ''t1'' 0)
     = task_failure ''No columns to parse from file'' ''t1''"
  using bulk_outcomes_per_row [of example_collaborators "''csv''" example_frame True "PyStr ''Brand''" 0
      "''t1''" "Exn ''EmptyDataError'' ''No columns to parse from file''"]
    bulk_outcomes_per_row [of example_collaborators "''not a csv''" example_frame True "PyStr ''Brand''" 0
      "''t1''" "Exn ''EmptyDataError'' ''No columns to parse from file''"]
  by (simp add: bulk_example_simps)

text \<open>
  Claim C2 as stated does not hold of every input. The input \<open>ragged\<close> has two data
  lines and the parser rejects it: \<open>process_bulk_seo_csv\<close> raises the parser's error and
  the task returns a failure, neither with an outcome for any line. The input
  \<open>lettered\<close> parses to two rows labelled x and y: with a logger configured,
  \<open>process_bulk_seo_csv\<close> fails to format the number of the first row, in the row's
  \<open>try\<close> and again in its handler, and raises; the task fails to compute the progress
  of the first row and returns a failure without results.
\<close>

theorem row_labels_end_bulk_run_counterexample:
  "read_csv example_collaborators ''ragged'' = Inl ragged_error
   \<and> fst (process_bulk_seo_csv example_collaborators True ''ragged'' (PyStr ''Brand'') 0)
     = Inl ragged_error
   \<and> task_result (process_bulk_csv_async example_collaborators ''ragged'' (PyStr ''Brand'') ''t1'' 0)
     = task_failure (msg ragged_error) ''t1''
   \<and> read_csv example_collaborators ''lettered'' = Inr lettered_frame
   \<and> length lettered_frame = 2
   \<and> fst (process_bulk_seo_csv example_collaborators True ''lettered'' (PyStr ''Brand'') 0)
     = Inl (Exn ''TypeError'' (''can only concatenate str (not '' @ dquoted ''int'' @ '') to str''))
   \<and> task_result (process_bulk_csv_async example_collaborators ''lettered'' (PyStr ''Brand'') ''t1'' 0)
     = task_failure (''unsupported operand type(s) for /: '' @ quoted ''str'' @ '' and '' @ quoted ''int'') ''t1''"
  by (simp add: example_collaborators_def lettered_frame_def process_bulk_seo_csv_def
      process_bulk_csv_async_def seo_row_def seo_row_try_def log_row_number_def task_result_def)

section \<open>Properties of the task handlers\<close>

text \<open>
  The progress values of the ad-copy and SEO handlers: 0 and 25, then 50 once the client
  is built, then 90 once the generation call has returned. They are non-decreasing,
  start at 0 and stay below 100.
\<close>

lemma single_progress:
  "fst (generate_ad_copy_async k m J api tid st) \<in> {[0, 25], [0, 25, 50], [0, 25, 50, 90]}"
  "fst (generate_seo_content_async k m J api ct tid st) \<in> {[0, 25], [0, 25, 50], [0, 25, 50, 90]}"
  by (auto simp: generate_ad_copy_async_def generate_seo_content_async_def split: prod.splits sum.splits)

lemma single_progress_sound:
  "sorted (fst (generate_ad_copy_async k m J api tid st))
   \<and> hd (fst (generate_ad_copy_async k m J api tid st)) = 0
   \<and> list_all (\<lambda>c. c < 100) (fst (generate_ad_copy_async k m J api tid st))
   \<and> sorted (fst (generate_seo_content_async k m J api ct tid st))
   \<and> hd (fst (generate_seo_content_async k m J api ct tid st)) = 0
   \<and> list_all (\<lambda>c. c < 100) (fst (generate_seo_content_async k m J api ct tid st))"
  using single_progress(1)[of k m J api tid st] single_progress(2)[of k m J api ct tid st]
  by auto

text \<open>
  The progress values of the bulk handler on a frame with integer labels: 0, then the
  value computed from the label of each row, then 95.
\<close>

lemma bulk_progress_int_labelled:
  "read_csv C content = Inr df \<Longrightarrow> int_labelled df \<Longrightarrow>
     fst (process_bulk_csv_async C content dbn tid w)
       = [0] @ map (\<lambda>x. projr (row_progress (fst x) (length df))) df @ [95]"
  by (simp add: process_bulk_csv_async_def task_loop_outcomes)

text \<open>
  Under the default index the labels are the positions 0, 1, ..., and the values are
  non-decreasing, start at 0 and stay below 100.
\<close>

lemma bulk_progress_default_index:
  assumes r: "read_csv C content = Inr df"
    and d: "map fst df = map (\<lambda>i. PyInt (int i)) [0 ..< length df]"
  shows "fst (process_bulk_csv_async C content dbn tid w)
           = [0] @ map (\<lambda>i. (int i * 80) div int (length df) + 10) [0 ..< length df] @ [95]"
proof -
  have "\<forall>l \<in> set (map fst df). \<exists>i. l = PyInt i" by (subst d) auto
  then have il: "int_labelled df"
    by (auto simp: int_labelled_def list_all_iff split: pyval.splits)
  have "map (\<lambda>x. projr (row_progress (fst x) (length df))) df
          = map (\<lambda>l. projr (row_progress l (length df))) (map fst df)"
    by simp
  also have "\<dots> = map (\<lambda>i. (int i * 80) div int (length df) + 10) [0 ..< length df]"
    by (subst d) (simp add: trunc_div_def)
  finally show ?thesis by (simp add: bulk_progress_int_labelled[OF r il])
qed

lemma bulk_progress_default_index_sound:
  assumes r: "read_csv C content = Inr df"
    and d: "map fst df = map (\<lambda>i. PyInt (int i)) [0 ..< length df]"
  shows "sorted (fst (process_bulk_csv_async C content dbn tid w))
       \<and> hd (fst (process_bulk_csv_async C content dbn tid w)) = 0
       \<and> list_all (\<lambda>c. c < 100) (fst (process_bulk_csv_async C content dbn tid w))"
proof -
  let ?n = "length df"
  let ?f = "\<lambda>i. (int i * 80) div int ?n + 10"
  have m: "?f i \<le> ?f j" if "i \<le> j" for i j
  proof (cases "?n = 0")
    case True
    then show ?thesis by simp
  next
    case False
    have "int i * 80 \<le> int j * 80" using that by simp
    then have "(int i * 80) div int ?n \<le> (int j * 80) div int ?n"
      using False by (intro zdiv_mono1) auto
    then show ?thesis by simp
  qed
  have b: "10 \<le> ?f i \<and> ?f i \<le> 90" if "i < ?n" for i
  proof -
    have le: "int i * 80 \<le> 80 * int ?n" using that by simp
    have pos: "0 < int ?n" using that by (cases df) auto
    then have "(int i * 80) div int ?n \<le> (80 * int ?n) div int ?n"
      using le by (intro zdiv_mono1)
    moreover have "(80 * int ?n) div int ?n = 80" using pos by simp
    moreover have "0 \<le> (int i * 80) div int ?n"
      using pos by (simp add: pos_imp_zdiv_nonneg_iff)
    ultimately show ?thesis by simp
  qed
  have "sorted_wrt (\<lambda>x y. ?f x \<le> ?f y) [0 ..< ?n]"
    by (rule sorted_wrt_mono_rel[of _ "(\<le>)"]) (use m in auto)
  then have s: "sorted (map ?f [0 ..< ?n])" by (simp add: sorted_map)
  have "sorted ([0] @ map ?f [0 ..< ?n] @ [95])"
    using s b by (fastforce simp: sorted_append)
  moreover have "list_all (\<lambda>c. c < 100) ([0] @ map ?f [0 ..< ?n] @ [95])"
    using b by (fastforce simp: list_all_iff)
  ultimately show ?thesis by (simp add: bulk_progress_default_index[OF r d])
qed

text \<open>
  Claim C8, evaluated on the code. The bulk handler computes the progress of a row from
  the index label that \<open>df.iterrows()\<close> yields, not from the position of the row. The
  input \<open>shifted\<close> parses to two rows labelled 5 and 1, and the handler emits
  0, 210, 50, 95: the values are not non-decreasing, and one exceeds the total of 100
  before the job is complete.
\<close>

theorem bulk_progress_follows_index_labels:
  "read_csv example_collaborators ''shifted'' = Inr shifted_frame
   \<and> fst (process_bulk_csv_async example_collaborators ''shifted'' (PyStr ''Brand'') ''t1'' 0)
       = [0, 210, 50, 95]
   \<and> \<not> sorted (fst (process_bulk_csv_async example_collaborators ''shifted'' (PyStr ''Brand'') ''t1'' 0))
   \<and> \<not> list_all (\<lambda>c. c \<le> 100)
         (fst (process_bulk_csv_async example_collaborators ''shifted'' (PyStr ''Brand'') ''t1'' 0))"
proof -
  have r: "read_csv example_collaborators ''shifted'' = Inr shifted_frame"
    by (simp add: example_collaborators_def)
  have "fst (process_bulk_csv_async example_collaborators ''shifted'' (PyStr ''Brand'') ''t1'' 0)
       = [0, 210, 50, 95]"
    by (simp add: bulk_progress_int_labelled[OF r] int_labelled_def shifted_frame_def trunc_div_def)
  then show ?thesis using r by simp
qed

section \<open>Properties of the bulk report\<close>


lemma foldl_max_ge:
  "m \<le> foldl (\<lambda>m result. case map_of result key of Some (PyList xs) \<Rightarrow> max m (length xs) | _ \<Rightarrow> m) m results"
proof (induction results arbitrary: m)
  case Nil
  then show ?case by simp
next
  case (Cons r rs)
  let ?f = "\<lambda>m result. case map_of result key of Some (PyList xs) \<Rightarrow> max m (length xs) | _ \<Rightarrow> m"
  have "m \<le> ?f m r" by (auto split: option.splits pyval.splits)
  also have "\<dots> \<le> foldl ?f (?f m r) rs" by (rule Cons.IH)
  finally show ?case by simp
qed

lemma foldl_max_member:
  "result \<in> set results \<Longrightarrow> map_of result key = Some (PyList xs) \<Longrightarrow>
     length xs \<le> foldl (\<lambda>m result. case map_of result key of Some (PyList xs) \<Rightarrow> max m (length xs) | _ \<Rightarrow> m) m results"
proof (induction results arbitrary: m)
  case Nil
  then show ?case by simp
next
  case (Cons r rs)
  let ?f = "\<lambda>m result. case map_of result key of Some (PyList xs) \<Rightarrow> max m (length xs) | _ \<Rightarrow> m"
  show ?case
  proof (cases "result = r")
    case True
    then have "length xs \<le> ?f m r" using Cons.prems(2) by simp
    also have "\<dots> \<le> foldl ?f (?f m r) rs" by (rule foldl_max_ge)
    finally show ?thesis by simp
  next
    case False
    then have "result \<in> set rs" using Cons.prems(1) by simp
    from Cons.IH[OF this Cons.prems(2)] show ?thesis by simp
  qed
qed

lemma max_count_member:
  "result \<in> set results \<Longrightarrow> map_of result key = Some (PyList xs) \<Longrightarrow> length xs \<le> max_count key results"
  unfolding max_count_def by (rule foldl_max_member)

lemma padded_cells:
  assumes "result \<in> set results"
    and "case map_of result key of None \<Rightarrow> True | Some v \<Rightarrow> (case v of PyList xs \<Rightarrow> True | _ \<Rightarrow> False)"
  shows "padded (dict_get result key (PyList [])) (max_count key results)
           = Inr (cells_of result key (max_count key results))"
    and "length (cells_of result key (max_count key results)) = max_count key results"
proof -
  show "padded (dict_get result key (PyList [])) (max_count key results)
           = Inr (cells_of result key (max_count key results))"
  proof (cases "map_of result key")
    case None
    then show ?thesis by (simp add: dict_get_def cells_of_def list_of_def)
  next
    case (Some v)
    then obtain xs where v: "v = PyList xs" using assms(2) by (cases v) auto
    from max_count_member[OF assms(1)] Some v have "length xs \<le> max_count key results" by simp
    then show ?thesis using Some v by (simp add: dict_get_def cells_of_def list_of_def)
  qed
  show "length (cells_of result key (max_count key results)) = max_count key results"
  proof (cases "map_of result key")
    case None
    then show ?thesis by (simp add: dict_get_def cells_of_def list_of_def)
  next
    case (Some v)
    then obtain xs where v: "v = PyList xs" using assms(2) by (cases v) auto
    from max_count_member[OF assms(1)] Some v have "length xs \<le> max_count key results" by simp
    then show ?thesis using Some v by (simp add: dict_get_def cells_of_def list_of_def)
  qed
qed

lemma csv_row_expected:
  assumes "result \<in> set results" "lists_or_absent result"
  shows "csv_row ct (max_count ''titles'' results) (max_count ''descriptions'' results) result
           = Inr (expected_row ct (max_count ''titles'' results) (max_count ''descriptions'' results) result)"
  using assms padded_cells(1)[of result results "''titles''"] padded_cells(1)[of result results "''descriptions''"]
  by (simp add: csv_row_def expected_row_def lists_or_absent_def)

lemma write_rows_map:
  "(\<And>r. r \<in> set rs \<Longrightarrow> f r = Inr (g r)) \<Longrightarrow> write_rows f rs = Inr (map g rs)"
  by (induction rs) auto

lemma create_seo_csv_rows:
  assumes "results \<noteq> []" "list_all lists_or_absent results"
  shows "create_seo_csv results ct
           = csv_headers ct (max_count ''titles'' results) (max_count ''descriptions'' results)
             # map (expected_row ct (max_count ''titles'' results) (max_count ''descriptions'' results)) results"
proof -
  have "write_rows (csv_row ct (max_count ''titles'' results) (max_count ''descriptions'' results)) results
          = Inr (map (expected_row ct (max_count ''titles'' results) (max_count ''descriptions'' results)) results)"
    by (rule write_rows_map) (use assms(2) csv_row_expected in \<open>auto simp: list_all_iff\<close>)
  then show ?thesis using assms(1) by (simp add: create_seo_csv_def create_seo_csv_try_def Let_def)
qed

lemma length_labels: "length (labels p n) = n"
  by (simp add: labels_def)

lemma length_csv_headers:
  "length (csv_headers ct mt md) = 3 + (if show_titles ct then mt else 0) + (if show_descriptions ct then md else 0)"
  by (simp add: csv_headers_def length_labels)


text \<open>
  Claim C7, as amended. For the empty result list the report is a four-column header and
  one \<open>No data\<close> row. For a non-empty list whose titles and descriptions, where
  present, are lists, the report is the header followed by exactly one data row per
  result, in order. The title columns exist when the content type is \<open>both\<close> or
  \<open>titles\<close>, the description columns when it is \<open>both\<close> or \<open>descriptions\<close>. A
  success row holds URL, keywords and brand, then its titles and its descriptions, each
  padded with empty strings to the maximum count over all results, and is as wide as the
  header. A failure row starts with the URL, the \<open>ERROR\<close> marker, the brand and the
  failure message, and all its further cells are empty strings.
\<close>

theorem report_rows:
  "create_seo_csv [] ct
     = [[PyStr ''URL'', PyStr ''Keywords'', PyStr ''Brand Name'', PyStr ''Error''],
        [PyStr ''No data'', PyStr ''No data'', PyStr ''No data'', PyStr ''No results generated'']]
   \<and> (results \<noteq> [] \<and> list_all lists_or_absent results \<longrightarrow>
        hd (create_seo_csv results ct)
          = csv_headers ct (max_count ''titles'' results) (max_count ''descriptions'' results)
      \<and> length (tl (create_seo_csv results ct)) = length results
      \<and> (\<forall>i < length results.
           (\<not> dict_has (results ! i) ''error'' \<longrightarrow>
                tl (create_seo_csv results ct) ! i
                  = [dict_get (results ! i) ''url'' (PyStr []), dict_get (results ! i) ''keywords'' (PyStr []),
                     dict_get (results ! i) ''brand_name'' (PyStr [])]
                    @ (if show_titles ct
                       then cells_of (results ! i) ''titles'' (max_count ''titles'' results) else [])
                    @ (if show_descriptions ct
                       then cells_of (results ! i) ''descriptions'' (max_count ''descriptions'' results) else [])
              \<and> length (tl (create_seo_csv results ct) ! i) = length (hd (create_seo_csv results ct)))
         \<and> (dict_has (results ! i) ''error'' \<longrightarrow>
                take 4 (tl (create_seo_csv results ct) ! i)
                  = [dict_get (results ! i) ''url'' (PyStr []), PyStr ''ERROR'',
                     dict_get (results ! i) ''brand_name'' (PyStr []), dict_get (results ! i) ''error'' PyNone]
              \<and> list_all (\<lambda>c. c = PyStr []) (drop 4 (tl (create_seo_csv results ct) ! i)))))"
proof (rule conjI)
  show "create_seo_csv [] ct
     = [[PyStr ''URL'', PyStr ''Keywords'', PyStr ''Brand Name'', PyStr ''Error''],
        [PyStr ''No data'', PyStr ''No data'', PyStr ''No data'', PyStr ''No results generated'']]"
    by (simp add: create_seo_csv_def create_seo_csv_try_def)
next
  let ?mt = "max_count ''titles'' results" and ?md = "max_count ''descriptions'' results"
  show "results \<noteq> [] \<and> list_all lists_or_absent results \<longrightarrow>
        hd (create_seo_csv results ct) = csv_headers ct ?mt ?md
      \<and> length (tl (create_seo_csv results ct)) = length results
      \<and> (\<forall>i < length results.
           (\<not> dict_has (results ! i) ''error'' \<longrightarrow>
                tl (create_seo_csv results ct) ! i
                  = [dict_get (results ! i) ''url'' (PyStr []), dict_get (results ! i) ''keywords'' (PyStr []),
                     dict_get (results ! i) ''brand_name'' (PyStr [])]
                    @ (if show_titles ct then cells_of (results ! i) ''titles'' ?mt else [])
                    @ (if show_descriptions ct then cells_of (results ! i) ''descriptions'' ?md else [])
              \<and> length (tl (create_seo_csv results ct) ! i) = length (hd (create_seo_csv results ct)))
         \<and> (dict_has (results ! i) ''error'' \<longrightarrow>
                take 4 (tl (create_seo_csv results ct) ! i)
                  = [dict_get (results ! i) ''url'' (PyStr []), PyStr ''ERROR'',
                     dict_get (results ! i) ''brand_name'' (PyStr []), dict_get (results ! i) ''error'' PyNone]
              \<and> list_all (\<lambda>c. c = PyStr []) (drop 4 (tl (create_seo_csv results ct) ! i))))"
  proof
    assume h: "results \<noteq> [] \<and> list_all lists_or_absent results"
    then have eq: "create_seo_csv results ct = csv_headers ct ?mt ?md # map (expected_row ct ?mt ?md) results"
      by (simp add: create_seo_csv_rows)
    have wf: "lists_or_absent (results ! i)" if "i < length results" for i
      using h that by (simp add: list_all_length)
    have len: "length (cells_of (results ! i) key (max_count key results)) = max_count key results"
      if "i < length results" "key = ''titles'' \<or> key = ''descriptions''" for i key
      using padded_cells(2)[of "results ! i" results key] wf[OF that(1)] that
      by (auto simp: lists_or_absent_def)
    show "hd (create_seo_csv results ct) = csv_headers ct ?mt ?md
      \<and> length (tl (create_seo_csv results ct)) = length results
      \<and> (\<forall>i < length results.
           (\<not> dict_has (results ! i) ''error'' \<longrightarrow>
                tl (create_seo_csv results ct) ! i
                  = [dict_get (results ! i) ''url'' (PyStr []), dict_get (results ! i) ''keywords'' (PyStr []),
                     dict_get (results ! i) ''brand_name'' (PyStr [])]
                    @ (if show_titles ct then cells_of (results ! i) ''titles'' ?mt else [])
                    @ (if show_descriptions ct then cells_of (results ! i) ''descriptions'' ?md else [])
              \<and> length (tl (create_seo_csv results ct) ! i) = length (hd (create_seo_csv results ct)))
         \<and> (dict_has (results ! i) ''error'' \<longrightarrow>
                take 4 (tl (create_seo_csv results ct) ! i)
                  = [dict_get (results ! i) ''url'' (PyStr []), PyStr ''ERROR'',
                     dict_get (results ! i) ''brand_name'' (PyStr []), dict_get (results ! i) ''error'' PyNone]
              \<and> list_all (\<lambda>c. c = PyStr []) (drop 4 (tl (create_seo_csv results ct) ! i))))"
      using len by (auto simp: eq expected_row_def length_csv_headers list_all_iff)
  qed
qed


lemmas report_example_simps = create_seo_csv_def create_seo_csv_try_def csv_row_def csv_headers_def
  labels_def max_count_def show_titles_def show_descriptions_def dict_has_def dict_get_def
  cells_of_def list_of_def lists_or_absent_def example_results_def Let_def

theorem report_rows_witness:
  "hd (create_seo_csv example_results ''both'')
     = [PyStr ''URL'', PyStr ''Keywords'', PyStr ''Brand Name'',
        PyStr ''Title 1'', PyStr ''Title 2'', PyStr ''Description 1'']
   \<and> length (tl (create_seo_csv example_results ''both'')) = 3
   \<and> tl (create_seo_csv example_results ''both'') ! 2
     = [PyStr ''C'', PyStr ''kc'', PyStr ''Brand'', PyStr ''T1'', PyStr [], PyStr []]
   \<and> take 4 (tl (create_seo_csv example_results ''both'') ! 1)
     = [PyStr ''B'', PyStr ''ERROR'', PyStr [], PyStr ''unreachable'']"
  using report_rows [of "''both''" example_results]
  by (simp add: report_example_simps upt_rec)

text \<open>
  Claim C7 as stated fails: the failure row of B has seven cells under a header of six
  (the message sits in a fourth leading cell that the header does not have), and the
  empty result list gives a report with one data row.
\<close>

theorem failure_row_wider_than_header_counterexample:
  "create_seo_csv example_pair ''both''
     = [[PyStr ''URL'', PyStr ''Keywords'', PyStr ''Brand Name'',
         PyStr ''Title 1'', PyStr ''Title 2'', PyStr ''Description 1''],
        [PyStr ''A'', PyStr ''ka'', PyStr ''Brand'', PyStr ''T1'', PyStr ''T2'', PyStr ''D1''],
        [PyStr ''B'', PyStr ''ERROR'', PyStr [], PyStr ''unreachable'', PyStr [], PyStr [], PyStr []]]
   \<and> map length (create_seo_csv example_pair ''both'') = [6, 6, 7]
   \<and> length (tl (create_seo_csv [] ''both'')) = 1"
  by (simp add: report_example_simps example_pair_def upt_rec)

end
